theory Spec2Isabelle
  imports Complex_Main
begin

section \<open>Cell values: float64 with its special values\<close>

text \<open>
  Every numeric column of the notebook and of the dashboard is a pandas float64 column.
  A cell is a finite number, an infinity or NaN; pandas uses NaN for a missing value.
  Finite numbers are modelled as reals: rounding is left out, the special values and
  their propagation are kept.  There is one zero (no negative zero).
\<close>

datatype pyfloat = Num real | PInf | NInf | NaN

fun fneg :: "pyfloat \<Rightarrow> pyfloat" where
  "fneg (Num a) = Num (- a)"
| "fneg PInf = NInf"
| "fneg NInf = PInf"
| "fneg NaN = NaN"

fun fadd :: "pyfloat \<Rightarrow> pyfloat \<Rightarrow> pyfloat" where
  "fadd NaN y = NaN"
| "fadd x NaN = NaN"
| "fadd (Num a) (Num b) = Num (a + b)"
| "fadd PInf NInf = NaN"
| "fadd NInf PInf = NaN"
| "fadd PInf y = PInf"
| "fadd x PInf = PInf"
| "fadd NInf y = NInf"
| "fadd x NInf = NInf"

definition fsub :: "pyfloat \<Rightarrow> pyfloat \<Rightarrow> pyfloat" where
  "fsub x y = fadd x (fneg y)"

fun fmul :: "pyfloat \<Rightarrow> pyfloat \<Rightarrow> pyfloat" where
  "fmul NaN y = NaN"
| "fmul x NaN = NaN"
| "fmul (Num a) (Num b) = Num (a * b)"
| "fmul (Num a) PInf = (if a = 0 then NaN else if 0 < a then PInf else NInf)"
| "fmul (Num a) NInf = (if a = 0 then NaN else if 0 < a then NInf else PInf)"
| "fmul PInf (Num b) = (if b = 0 then NaN else if 0 < b then PInf else NInf)"
| "fmul NInf (Num b) = (if b = 0 then NaN else if 0 < b then NInf else PInf)"
| "fmul PInf PInf = PInf"
| "fmul PInf NInf = NInf"
| "fmul NInf PInf = NInf"
| "fmul NInf NInf = PInf"

text \<open>
  Division of a column by a number never raises: a finite number divided by zero is an
  infinity, zero divided by zero is NaN.
\<close>

fun fdiv :: "pyfloat \<Rightarrow> pyfloat \<Rightarrow> pyfloat" where
  "fdiv NaN y = NaN"
| "fdiv x NaN = NaN"
| "fdiv (Num a) (Num b) =
     (if b \<noteq> 0 then Num (a / b) else if a = 0 then NaN else if 0 < a then PInf else NInf)"
| "fdiv (Num a) PInf = Num 0"
| "fdiv (Num a) NInf = Num 0"
| "fdiv PInf (Num b) = (if 0 \<le> b then PInf else NInf)"
| "fdiv NInf (Num b) = (if 0 \<le> b then NInf else PInf)"
| "fdiv PInf PInf = NaN"
| "fdiv PInf NInf = NaN"
| "fdiv NInf PInf = NaN"
| "fdiv NInf NInf = NaN"

fun fabs :: "pyfloat \<Rightarrow> pyfloat" where
  "fabs (Num a) = Num \<bar>a\<bar>"
| "fabs PInf = PInf"
| "fabs NInf = PInf"
| "fabs NaN = NaN"

text \<open>\<^verbatim>\<open>Series.clip(lower=0)\<close>: values below the bound become the bound, NaN stays NaN.\<close>

fun clip_lower :: "real \<Rightarrow> pyfloat \<Rightarrow> pyfloat" where
  "clip_lower lo (Num a) = Num (max lo a)"
| "clip_lower lo PInf = PInf"
| "clip_lower lo NInf = Num lo"
| "clip_lower lo NaN = NaN"

text \<open>The larger of two cells, a NaN operand being ignored.\<close>

fun fmax :: "pyfloat \<Rightarrow> pyfloat \<Rightarrow> pyfloat" where
  "fmax NaN y = y"
| "fmax x NaN = x"
| "fmax PInf y = PInf"
| "fmax x PInf = PInf"
| "fmax NInf y = y"
| "fmax x NInf = x"
| "fmax (Num a) (Num b) = Num (max a b)"

fun is_finite :: "pyfloat \<Rightarrow> bool" where
  "is_finite (Num a) = True"
| "is_finite x = False"

subsection \<open>Column reductions\<close>

definition dropna :: "pyfloat list \<Rightarrow> pyfloat list" where
  "dropna xs = filter (\<lambda>x. x \<noteq> NaN) xs"

text \<open>The sum of the cells of a list, one after the other; a NaN cell makes it NaN.\<close>

fun fsum :: "pyfloat list \<Rightarrow> pyfloat" where
  "fsum [] = Num 0"
| "fsum (x # xs) = fadd x (fsum xs)"

text \<open>
  \<^verbatim>\<open>Series.sum()\<close>, \<^verbatim>\<open>Series.max()\<close> and \<^verbatim>\<open>Series.mean()\<close> skip NaN
  (\<^verbatim>\<open>skipna=True\<close> is the default).  The sum of no value is 0; the maximum and the
  mean of no value are NaN.
\<close>

definition series_sum :: "pyfloat list \<Rightarrow> pyfloat" where
  "series_sum xs = fsum (dropna xs)"

definition series_max :: "pyfloat list \<Rightarrow> pyfloat" where
  "series_max xs = (case dropna xs of [] \<Rightarrow> NaN | y # ys \<Rightarrow> foldl fmax y ys)"

definition series_mean :: "pyfloat list \<Rightarrow> pyfloat" where
  "series_mean xs = fdiv (series_sum xs) (Num (real (length (dropna xs))))"

section \<open>The disaggregation notebook\<close>

subsection \<open>Environmental risk: the temperature score\<close>

definition optimal_temp :: pyfloat where
  "optimal_temp = Num 26"

definition temp_range :: pyfloat where
  "temp_range = Num 6"

text \<open>
  The two assignments to the \<^verbatim>\<open>Temp_Score\<close> column, cell by cell:
  \<^verbatim>\<open>1 - (abs(T - optimal_temp) / temp_range)\<close>, then \<^verbatim>\<open>clip(lower=0)\<close>.
\<close>

definition temp_score :: "pyfloat \<Rightarrow> pyfloat" where
  "temp_score T = clip_lower 0 (fsub (Num 1) (fdiv (fabs (fsub T optimal_temp)) temp_range))"

subsection \<open>Tables\<close>

text \<open>
  The boundary shapefile gives one row per state with its geometry; the geometry is an
  opaque value.  The three other inputs are tables keyed by the \<^verbatim>\<open>State\<close> column:
  \<^verbatim>\<open>pop_df\<close> with columns State, Population; \<^verbatim>\<open>env_df\<close> with columns State,
  Avg_Temperature, Avg_Rainfall; \<^verbatim>\<open>lulc_gdf\<close> with columns State, LULC_Type.
  \<^verbatim>\<open>states_gdf\<close> gains columns cell after cell: each record below extends the
  one before it by the columns that a cell adds.
\<close>

record 'g boundary_row =
  State :: string
  geometry :: 'g

record 'g pop_row = "'g boundary_row" +
  Population :: pyfloat

record 'g env_row = "'g pop_row" +
  Avg_Temperature :: pyfloat
  Avg_Rainfall :: pyfloat

record 'g lulc_row = "'g env_row" +
  LULC_Weight :: pyfloat

record 'g risk_row = "'g lulc_row" +
  Temp_Score :: pyfloat
  Rain_Score :: pyfloat
  Env_Risk :: pyfloat

record 'g alloc_row = "'g risk_row" +
  State_Weight :: pyfloat
  Allocated_Cases :: pyfloat

type_synonym pop_df = "(string \<times> pyfloat) list"
type_synonym env_df = "(string \<times> pyfloat \<times> pyfloat) list"
type_synonym lulc_gdf = "(string \<times> string) list"

subsection \<open>Data preparation: the left merges\<close>

text \<open>
  \<^verbatim>\<open>left.merge(right, on="State", how="left")\<close>: the rows of the left frame in their
  order; a left row is paired with every right row of the same key, in the right frame's
  order, and with nothing (the right columns become NaN) when no right row has its key.
\<close>

definition matches :: "string \<Rightarrow> (string \<times> 'b) list \<Rightarrow> 'b list" where
  "matches k right = map snd (filter (\<lambda>kv. fst kv = k) right)"

definition merge_left :: "('a \<Rightarrow> string) \<Rightarrow> 'a list \<Rightarrow> (string \<times> 'b) list \<Rightarrow> ('a \<times> 'b option) list" where
  "merge_left key left right =
     concat (map (\<lambda>l. case matches (key l) right of
                          [] \<Rightarrow> [(l, None)]
                        | vs \<Rightarrow> map (\<lambda>v. (l, Some v)) vs) left)"

definition merge_population :: "'g boundary_row list \<Rightarrow> pop_df \<Rightarrow> 'g pop_row list" where
  "merge_population states_gdf pop_df =
     map (\<lambda>(b, p). \<lparr>State = State b, geometry = geometry b,
                     Population = (case p of None \<Rightarrow> NaN | Some v \<Rightarrow> v)\<rparr>)
         (merge_left State states_gdf pop_df)"

definition merge_environment :: "'g pop_row list \<Rightarrow> env_df \<Rightarrow> 'g env_row list" where
  "merge_environment states_gdf env_df =
     map (\<lambda>(r, e). \<lparr>State = State r, geometry = geometry r, Population = Population r,
                     Avg_Temperature = (case e of None \<Rightarrow> NaN | Some te \<Rightarrow> fst te),
                     Avg_Rainfall = (case e of None \<Rightarrow> NaN | Some te \<Rightarrow> snd te)\<rparr>)
         (merge_left State states_gdf env_df)"

definition merger :: "'g boundary_row list \<Rightarrow> pop_df \<Rightarrow> env_df \<Rightarrow> 'g env_row list" where
  "merger states_gdf pop_df env_df = merge_environment (merge_population states_gdf pop_df) env_df"

subsection \<open>LULC weighting\<close>

definition lulc_weight_mapping :: "string \<rightharpoonup> pyfloat" where
  "lulc_weight_mapping =
     map_of [(''Urban'', Num 1.5), (''Agricultural'', Num 1.3), (''Forested'', Num 1.0), (''Water'', Num 0.5)]"

text \<open>\<^verbatim>\<open>Series.map(dict)\<close>: a value that is no key of the dictionary becomes NaN.\<close>

definition series_map :: "(string \<rightharpoonup> pyfloat) \<Rightarrow> string \<Rightarrow> pyfloat" where
  "series_map d t = (case d t of None \<Rightarrow> NaN | Some w \<Rightarrow> w)"

definition fillna :: "real \<Rightarrow> pyfloat \<Rightarrow> pyfloat" where
  "fillna v x = (if x = NaN then Num v else x)"

text \<open>
  The last statement of the cell is the chained call
  \<^verbatim>\<open>states_gdf["LULC_Weight"].fillna(1.0, inplace=True)\<close>.  It fills the column of the
  frame when pandas runs without Copy-on-Write (the default before version 3).  With
  Copy-on-Write (always on from version 3) it fills a temporary copy of the column and
  the frame keeps its NaN.  The repository pins no pandas version, so the mode is a
  parameter.
\<close>

definition chained_fillna :: "bool \<Rightarrow> real \<Rightarrow> pyfloat \<Rightarrow> pyfloat" where
  "chained_fillna copy_on_write v x = (if copy_on_write then x else fillna v x)"

text \<open>
  The three statements of the cell: the weight column of \<^verbatim>\<open>lulc_gdf\<close>, the left merge
  of its columns State and LULC_Weight, and the chained fill of the merged column.
\<close>

definition lulc_weighting :: "bool \<Rightarrow> 'g env_row list \<Rightarrow> lulc_gdf \<Rightarrow> 'g lulc_row list" where
  "lulc_weighting copy_on_write states_gdf lulc_gdf =
     map (\<lambda>r. r\<lparr>LULC_Weight := chained_fillna copy_on_write 1.0 (LULC_Weight r)\<rparr>)
       (map (\<lambda>(r, w). \<lparr>State = State r, geometry = geometry r, Population = Population r,
                        Avg_Temperature = Avg_Temperature r, Avg_Rainfall = Avg_Rainfall r,
                        LULC_Weight = (case w of None \<Rightarrow> NaN | Some v \<Rightarrow> v)\<rparr>)
            (merge_left State states_gdf
               (map (\<lambda>(s, t). (s, series_map lulc_weight_mapping t)) lulc_gdf)))"

subsection \<open>Environmental risk: rainfall score and combined risk\<close>

definition max_rainfall :: "('g, 'z) env_row_scheme list \<Rightarrow> pyfloat" where
  "max_rainfall states_gdf = series_max (map Avg_Rainfall states_gdf)"

definition environmental_risk :: "'g lulc_row list \<Rightarrow> 'g risk_row list" where
  "environmental_risk states_gdf =
     (let mr = max_rainfall states_gdf
      in map (\<lambda>r. let ts = temp_score (Avg_Temperature r);
                       rs = fdiv (Avg_Rainfall r) mr
                   in \<lparr>State = State r, geometry = geometry r, Population = Population r,
                       Avg_Temperature = Avg_Temperature r, Avg_Rainfall = Avg_Rainfall r,
                       LULC_Weight = LULC_Weight r,
                       Temp_Score = ts, Rain_Score = rs,
                       Env_Risk = fmul (fmul (LULC_Weight r) ts) rs\<rparr>) states_gdf)"

subsection \<open>Malaria incidence allocation\<close>

definition national_malaria_incidence :: real where
  "national_malaria_incidence = 500000"

definition state_weight :: "('g, 'z) risk_row_scheme \<Rightarrow> pyfloat" where
  "state_weight r = fmul (Population r) (Env_Risk r)"

definition total_weight :: "('g, 'z) risk_row_scheme list \<Rightarrow> pyfloat" where
  "total_weight states_gdf = series_sum (map state_weight states_gdf)"

text \<open>The national incidence is the number the caller puts in place of the example value.\<close>

definition allocate :: "real \<Rightarrow> 'g risk_row list \<Rightarrow> 'g alloc_row list" where
  "allocate N states_gdf =
     (let tw = total_weight states_gdf
      in map (\<lambda>r. \<lparr>State = State r, geometry = geometry r, Population = Population r,
                    Avg_Temperature = Avg_Temperature r, Avg_Rainfall = Avg_Rainfall r,
                    LULC_Weight = LULC_Weight r,
                    Temp_Score = Temp_Score r, Rain_Score = Rain_Score r, Env_Risk = Env_Risk r,
                    State_Weight = state_weight r,
                    Allocated_Cases = fmul (fdiv (state_weight r) tw) (Num N)\<rparr>) states_gdf)"

subsection \<open>Export and the whole run\<close>

text \<open>
  \<^verbatim>\<open>to_file\<close> writes the frame with its geometry; \<^verbatim>\<open>drop(columns="geometry").to_csv\<close>
  writes the state and the numeric columns in column order.  The files are the values
  handed to the two writers.
\<close>

record 'g exported =
  shp :: "'g alloc_row list"
  csv :: "(string \<times> pyfloat list) list"

definition csv_line :: "'g alloc_row \<Rightarrow> string \<times> pyfloat list" where
  "csv_line r = (State r, [Population r, Avg_Temperature r, Avg_Rainfall r, LULC_Weight r,
                           Temp_Score r, Rain_Score r, Env_Risk r, State_Weight r, Allocated_Cases r])"

definition export :: "'g alloc_row list \<Rightarrow> 'g exported" where
  "export states_gdf = \<lparr>shp = states_gdf, csv = map csv_line states_gdf\<rparr>"

definition disaggregate ::
  "bool \<Rightarrow> real \<Rightarrow> 'g boundary_row list \<Rightarrow> pop_df \<Rightarrow> env_df \<Rightarrow> lulc_gdf \<Rightarrow> 'g alloc_row list" where
  "disaggregate copy_on_write N states_gdf pop_df env_df lulc_gdf =
     allocate N (environmental_risk
       (lulc_weighting copy_on_write (merger states_gdf pop_df env_df) lulc_gdf))"

definition notebook ::
  "bool \<Rightarrow> real \<Rightarrow> 'g boundary_row list \<Rightarrow> pop_df \<Rightarrow> env_df \<Rightarrow> lulc_gdf \<Rightarrow> 'g exported" where
  "notebook copy_on_write N states_gdf pop_df env_df lulc_gdf =
     export (disaggregate copy_on_write N states_gdf pop_df env_df lulc_gdf)"

subsection \<open>A run on three states\<close>

definition example_states :: "nat boundary_row list" where
  "example_states = [\<lparr>State = ''A'', geometry = 1\<rparr>, \<lparr>State = ''B'', geometry = 2\<rparr>,
                     \<lparr>State = ''C'', geometry = 3\<rparr>]"

definition example_pop :: pop_df where
  "example_pop = [(''A'', Num 100), (''B'', Num 200), (''C'', Num 50)]"

definition example_env :: env_df where
  "example_env = [(''A'', Num 26, Num 100), (''B'', Num 29, Num 50), (''C'', Num 23, Num 200)]"

definition example_lulc :: lulc_gdf where
  "example_lulc = [(''A'', ''Forested''), (''B'', ''Urban''), (''C'', ''Water'')]"

definition example_risk :: "nat risk_row list" where
  "example_risk =
     environmental_risk
       (lulc_weighting False (merger example_states example_pop example_env) example_lulc)"

text \<open>
  Variants of the inputs: a population table and an environmental table without state B,
  an environmental table with no rain anywhere, a population table of zeros, a LULC
  table with two category records for state A, and a LULC table with a record for state A
  only, of a category that is not in the weight table.
\<close>

definition partial_pop :: pop_df where
  "partial_pop = [(''A'', Num 100), (''C'', Num 50)]"

definition partial_env :: env_df where
  "partial_env = [(''A'', Num 26, Num 100), (''C'', Num 23, Num 200)]"

definition dry_env :: env_df where
  "dry_env = [(''A'', Num 26, Num 0), (''B'', Num 29, Num 0), (''C'', Num 23, Num 0)]"

definition zero_pop :: pop_df where
  "zero_pop = [(''A'', Num 0), (''B'', Num 0), (''C'', Num 0)]"

definition two_category_lulc :: lulc_gdf where
  "two_category_lulc =
     [(''A'', ''Urban''), (''A'', ''Water''), (''B'', ''Urban''), (''C'', ''Forested'')]"

definition unmapped_lulc :: lulc_gdf where
  "unmapped_lulc = [(''A'', ''Wetland'')]"

section \<open>The dashboard\<close>

subsection \<open>The incidence table and the filters\<close>

text \<open>
  A row of the table \<^verbatim>\<open>incidence_data\<close>, with the columns the callback reads.  The
  indicator dropdown offers four values and can be cleared; the year and state dropdowns
  hold a year or a state of the table, or nothing.
\<close>

record incidence_row =
  state :: string
  year :: int
  date :: string
  rainfall_mm :: pyfloat
  mortality_rate_adjusted :: pyfloat
  incidence_rate_adjusted :: pyfloat
  infection_prevalence_adjusted :: pyfloat
  effective_treatment_adjusted :: pyfloat

datatype indicator = MortalityRate | IncidenceRate | InfectionPrevalence | EffectiveTreatment

fun indicator_value :: "indicator \<Rightarrow> string" where
  "indicator_value MortalityRate = ''mortality_rate_adjusted''"
| "indicator_value IncidenceRate = ''incidence_rate_adjusted''"
| "indicator_value InfectionPrevalence = ''infection_prevalence_adjusted''"
| "indicator_value EffectiveTreatment = ''effective_treatment_adjusted''"

text \<open>\<^verbatim>\<open>row[selected_indicator]\<close>\<close>

fun indicator_column :: "indicator \<Rightarrow> incidence_row \<Rightarrow> pyfloat" where
  "indicator_column MortalityRate row = mortality_rate_adjusted row"
| "indicator_column IncidenceRate row = incidence_rate_adjusted row"
| "indicator_column InfectionPrevalence row = infection_prevalence_adjusted row"
| "indicator_column EffectiveTreatment row = effective_treatment_adjusted row"

subsection \<open>The query\<close>

datatype sql_param = PInt int | PStr string

type_synonym sql_params = "string \<rightharpoonup> sql_param"

text \<open>
  \<^verbatim>\<open>if selected_year:\<close> and \<^verbatim>\<open>if selected_state:\<close> test Python truth: nothing
  selected, the year 0 and the empty state name are all false.
\<close>

definition build_query :: "int option \<Rightarrow> string option \<Rightarrow> string \<times> sql_params" where
  "build_query selected_year selected_state =
     (let q0 = ''SELECT * FROM incidence_data WHERE 1=1'';
          p0 = Map.empty;
          (q1, p1) = (case selected_year of
                        Some y \<Rightarrow> if y \<noteq> 0 then (q0 @ '' AND year = :year'', p0(''year'' \<mapsto> PInt y))
                                  else (q0, p0)
                      | None \<Rightarrow> (q0, p0))
      in (case selected_state of
            Some s \<Rightarrow> if s \<noteq> [] then (q1 @ '' AND state = :state'', p1(''state'' \<mapsto> PStr s))
                      else (q1, p1)
          | None \<Rightarrow> (q1, p1)))"

text \<open>
  The store is outside the repository: it is the function from a statement and its
  parameters to the rows that \<^verbatim>\<open>connection.execute(text(query), params)\<close> fetches.
\<close>

type_synonym database = "string \<Rightarrow> sql_params \<Rightarrow> incidence_row list"

text \<open>
  A store holding one table, answering the four statements that \<open>build_query\<close> can
  build the way SQL reads their \<^verbatim>\<open>WHERE\<close> clauses.
\<close>

definition table_store :: "incidence_row list \<Rightarrow> database" where
  "table_store table q params =
     (if q = ''SELECT * FROM incidence_data WHERE 1=1'' then table
      else if q = ''SELECT * FROM incidence_data WHERE 1=1 AND year = :year''
        then filter (\<lambda>r. params ''year'' = Some (PInt (year r))) table
      else if q = ''SELECT * FROM incidence_data WHERE 1=1 AND state = :state''
        then filter (\<lambda>r. params ''state'' = Some (PStr (state r))) table
      else if q = ''SELECT * FROM incidence_data WHERE 1=1 AND year = :year AND state = :state''
        then filter (\<lambda>r. params ''year'' = Some (PInt (year r))
                        \<and> params ''state'' = Some (PStr (state r))) table
      else [])"

subsection \<open>Popup text\<close>

definition is_lower :: "char \<Rightarrow> bool" where
  "is_lower c = (97 \<le> (of_char c :: nat) \<and> (of_char c :: nat) \<le> 122)"

definition is_upper :: "char \<Rightarrow> bool" where
  "is_upper c = (65 \<le> (of_char c :: nat) \<and> (of_char c :: nat) \<le> 90)"

definition to_upper :: "char \<Rightarrow> char" where
  "to_upper c = (if is_lower c then char_of (of_char c - (32::nat)) else c)"

definition to_lower :: "char \<Rightarrow> char" where
  "to_lower c = (if is_upper c then char_of (of_char c + (32::nat)) else c)"

text \<open>\<^verbatim>\<open>str.replace\<close> of one character by another, and \<^verbatim>\<open>str.title\<close> on ASCII text.\<close>

definition str_replace :: "char \<Rightarrow> char \<Rightarrow> string \<Rightarrow> string" where
  "str_replace old new s = map (\<lambda>c. if c = old then new else c) s"

fun title_from :: "bool \<Rightarrow> string \<Rightarrow> string" where
  "title_from prev [] = []"
| "title_from prev (c # cs) =
     (if is_lower c \<or> is_upper c
      then (if prev then to_lower c else to_upper c) # title_from True cs
      else c # title_from False cs)"

definition str_title :: "string \<Rightarrow> string" where
  "str_title s = title_from False s"

subsection \<open>The callback\<close>

datatype py_error = AttributeError

text \<open>
  A map feature carries the state and the parts of the popup text: the state, the label
  made from the indicator's name, and the value of the indicator's column (its printing
  as text is left out).  A figure is what was handed to the plotting function.
\<close>

record map_feature =
  feature_state :: string
  popup_label :: string
  popup_value :: pyfloat

record figure =
  fig_data :: "incidence_row list"
  fig_x :: string
  fig_y :: "string option"
  fig_color :: string

record dashboard =
  choropleth :: "map_feature list"
  trend :: figure
  bar_chart :: figure
  correlation :: figure
  kpi_card_1 :: pyfloat
  kpi_card_2 :: pyfloat
  kpi_card_3 :: pyfloat

text \<open>
  The popup is built once per row.  With the indicator cleared,
  \<^verbatim>\<open>selected_indicator.replace\<close> raises AttributeError at the first row; with no row
  the expression is never evaluated.
\<close>

definition geojson_features :: "indicator option \<Rightarrow> incidence_row list \<Rightarrow> py_error + map_feature list" where
  "geojson_features selected_indicator filtered_data =
     (if filtered_data = [] then Inr []
      else case selected_indicator of
             None \<Rightarrow> Inl AttributeError
           | Some i \<Rightarrow>
               Inr (map (\<lambda>row. \<lparr>feature_state = state row,
                                  popup_label = str_title (str_replace (CHR ''_'') (CHR '' '') (indicator_value i)),
                                  popup_value = indicator_column i row\<rparr>) filtered_data))"

definition update_dashboard ::
  "database \<Rightarrow> int option \<Rightarrow> indicator option \<Rightarrow> string option \<Rightarrow> py_error + dashboard" where
  "update_dashboard db selected_year selected_indicator selected_state =
     (let (query, params) = build_query selected_year selected_state;
          filtered_data = db query params;
          y = map_option indicator_value selected_indicator
      in case geojson_features selected_indicator filtered_data of
           Inl e \<Rightarrow> Inl e
         | Inr features \<Rightarrow>
             Inr \<lparr>choropleth = features,
                  trend = \<lparr>fig_data = filtered_data, fig_x = ''date'', fig_y = y, fig_color = ''state''\<rparr>,
                  bar_chart = \<lparr>fig_data = filtered_data, fig_x = ''state'', fig_y = y, fig_color = ''state''\<rparr>,
                  correlation = \<lparr>fig_data = filtered_data, fig_x = ''rainfall(mm)'', fig_y = y, fig_color = ''state''\<rparr>,
                  kpi_card_1 = series_sum (map incidence_rate_adjusted filtered_data),
                  kpi_card_2 = series_sum (map mortality_rate_adjusted filtered_data),
                  kpi_card_3 = series_mean (map effective_treatment_adjusted filtered_data)\<rparr>)"

subsection \<open>A table of three rows\<close>

definition example_table :: "incidence_row list" where
  "example_table =
     [\<lparr>state = ''Lagos'', year = 2019, date = ''2019-01-01'', rainfall_mm = Num 120,
       mortality_rate_adjusted = Num 2, incidence_rate_adjusted = Num 30,
       infection_prevalence_adjusted = Num 10, effective_treatment_adjusted = Num 40\<rparr>,
      \<lparr>state = ''Kano'', year = 2019, date = ''2019-01-01'', rainfall_mm = Num 60,
       mortality_rate_adjusted = Num 3, incidence_rate_adjusted = Num 50,
       infection_prevalence_adjusted = Num 20, effective_treatment_adjusted = Num 20\<rparr>,
      \<lparr>state = ''Lagos'', year = 2020, date = ''2020-01-01'', rainfall_mm = Num 100,
       mortality_rate_adjusted = Num 1, incidence_rate_adjusted = Num 25,
       infection_prevalence_adjusted = Num 8, effective_treatment_adjusted = Num 45\<rparr>]"

section \<open>Properties\<close>

subsection \<open>Evaluation of the stages\<close>

lemmas stage_defs =
  allocate_def environmental_risk_def lulc_weighting_def merger_def merge_environment_def
  merge_population_def merge_left_def matches_def total_weight_def state_weight_def
  series_sum_def dropna_def max_rainfall_def series_max_def temp_score_def fsub_def
  optimal_temp_def temp_range_def fillna_def chained_fillna_def series_map_def
  lulc_weight_mapping_def Let_def

lemmas example_defs =
  example_states_def example_pop_def example_env_def example_lulc_def

subsection \<open>Sums of scaled columns\<close>

lemma fadd_eq_Num: "fadd x y = Num s \<Longrightarrow> \<exists>a b. x = Num a \<and> y = Num b \<and> s = a + b"
  by (cases x; cases y) simp_all

lemma fsum_Num_finite: "fsum xs = Num s \<Longrightarrow> x \<in> set xs \<Longrightarrow> is_finite x"
proof (induction xs arbitrary: s)
  case Nil
  then show ?case by simp
next
  case (Cons y ys)
  from Cons.prems(1) obtain a b where ab: "y = Num a" "fsum ys = Num b"
    using fadd_eq_Num [of y "fsum ys" s] by auto
  with Cons show ?case by auto
qed

lemma fsum_scale:
  "fsum xs = Num s \<Longrightarrow> t \<noteq> 0 \<Longrightarrow>
   fsum (map (\<lambda>x. fmul (fdiv x (Num t)) (Num N)) xs) = Num (s / t * N)"
proof (induction xs arbitrary: s)
  case Nil
  then show ?case by simp
next
  case (Cons y ys)
  from Cons.prems(1) obtain a b where ab: "y = Num a" "fsum ys = Num b" "s = a + b"
    using fadd_eq_Num [of y "fsum ys" s] by auto
  with Cons.IH [of b] Cons.prems(2) show ?case
    by (simp add: add_divide_distrib distrib_right)
qed

lemma dropna_scale:
  "\<forall>x\<in>set xs. x = NaN \<or> is_finite x \<Longrightarrow> t \<noteq> 0 \<Longrightarrow>
   dropna (map (\<lambda>x. fmul (fdiv x (Num t)) (Num N)) xs)
     = map (\<lambda>x. fmul (fdiv x (Num t)) (Num N)) (dropna xs)"
proof (induction xs)
  case Nil
  then show ?case by (simp add: dropna_def)
next
  case (Cons y ys)
  then have IH: "dropna (map (\<lambda>x. fmul (fdiv x (Num t)) (Num N)) ys)
     = map (\<lambda>x. fmul (fdiv x (Num t)) (Num N)) (dropna ys)" by simp
  from Cons.prems(1) have "y = NaN \<or> is_finite y" by simp
  then show ?case
  proof
    assume "y = NaN"
    with IH show ?thesis by (simp add: dropna_def)
  next
    assume "is_finite y"
    then obtain a where "y = Num a" by (cases y) simp_all
    with IH Cons.prems(2) show ?thesis by (simp add: dropna_def)
  qed
qed

lemma series_sum_Num_cells:
  assumes "series_sum xs = Num s" and "x \<in> set xs"
  shows "x = NaN \<or> is_finite x"
proof (cases "x = NaN")
  case True
  then show ?thesis by simp
next
  case False
  with assms(2) have "x \<in> set (dropna xs)" by (simp add: dropna_def)
  with assms(1) show ?thesis using fsum_Num_finite [of "dropna xs" s x]
    by (simp add: series_sum_def)
qed

lemma series_sum_scale:
  assumes "series_sum xs = Num s" and "t \<noteq> 0"
  shows "series_sum (map (\<lambda>x. fmul (fdiv x (Num t)) (Num N)) xs) = Num (s / t * N)"
proof -
  have "\<forall>x\<in>set xs. x = NaN \<or> is_finite x"
    using assms(1) series_sum_Num_cells by blast
  then have "dropna (map (\<lambda>x. fmul (fdiv x (Num t)) (Num N)) xs)
     = map (\<lambda>x. fmul (fdiv x (Num t)) (Num N)) (dropna xs)"
    using assms(2) by (rule dropna_scale)
  moreover have "fsum (dropna xs) = Num s"
    using assms(1) by (simp add: series_sum_def)
  ultimately show ?thesis
    using fsum_scale [of "dropna xs" s t N] assms(2) by (simp add: series_sum_def)
qed

lemma dropna_id: "NaN \<notin> set xs \<Longrightarrow> dropna xs = xs"
  by (induction xs) (auto simp: dropna_def)

lemma Allocated_Cases_allocate:
  "map Allocated_Cases (allocate N rows)
     = map (\<lambda>x. fmul (fdiv x (total_weight rows)) (Num N)) (map state_weight rows)"
  by (simp add: allocate_def Let_def comp_def)

subsection \<open>Special values\<close>

lemma fmul_NaN_right: "fmul x NaN = NaN"
  by (cases x) simp_all

lemma fdiv_zero_not_finite: "\<not> is_finite (fdiv x (Num 0))"
  by (cases x) simp_all

lemma fmul_not_finite: "\<not> is_finite x \<Longrightarrow> \<not> is_finite (fmul x (Num n))"
  by (cases x) simp_all

lemma temp_score_NaN: "temp_score NaN = NaN"
  by (simp add: temp_score_def fsub_def)

lemma fillna_not_NaN: "fillna v y \<noteq> NaN"
  by (simp add: fillna_def)

lemma fillna_NaN: "fillna v NaN = Num v"
  by (simp add: fillna_def)

lemma fillna_lulc_weight_mapping:
  "fillna 1 (series_map lulc_weight_mapping t)
     = (case lulc_weight_mapping t of None \<Rightarrow> Num 1 | Some w \<Rightarrow> w)"
  by (simp add: fillna_def series_map_def lulc_weight_mapping_def)

lemma chained_fillna_mapped:
  "lulc_weight_mapping t = Some w \<Longrightarrow> chained_fillna cow 1 (series_map lulc_weight_mapping t) = w"
  by (auto simp: chained_fillna_def fillna_def series_map_def lulc_weight_mapping_def
      split: if_splits)

subsection \<open>Left merges\<close>

lemma matches_distinct:
  "distinct (map fst right) \<Longrightarrow>
   matches k right = (case map_of right k of None \<Rightarrow> [] | Some v \<Rightarrow> [v])"
proof (induction right)
  case Nil
  then show ?case by (simp add: matches_def)
next
  case (Cons kv right)
  obtain k' v' where kv: "kv = (k', v')" by (cases kv)
  from Cons.prems have nk: "k' \<notin> fst ` set right" and d: "distinct (map fst right)"
    by (simp_all add: kv)
  have IH: "matches k right = (case map_of right k of None \<Rightarrow> [] | Some v \<Rightarrow> [v])"
    using Cons.IH d by simp
  show ?case
  proof (cases "k' = k")
    case True
    with nk have "map_of right k = None" by (simp add: map_of_eq_None_iff)
    with IH True show ?thesis by (simp add: matches_def kv)
  next
    case False
    with IH show ?thesis by (simp add: matches_def kv)
  qed
qed

lemma matches_map:
  "matches k (map (\<lambda>(s, t). (s, f t)) right) = map f (matches k right)"
  by (induction right) (auto simp: matches_def)

lemma matches_empty_iff: "matches k right = [] \<longleftrightarrow> k \<notin> fst ` set right"
  by (induction right) (auto simp: matches_def)

lemma merge_left_distinct:
  "distinct (map fst right) \<Longrightarrow>
   merge_left key left right = map (\<lambda>l. (l, map_of right (key l))) left"
  by (induction left) (simp_all add: merge_left_def matches_distinct split: option.split)

lemma merge_left_Cons:
  "merge_left key (l # left) right =
     (case matches (key l) right of [] \<Rightarrow> [(l, None)] | vs \<Rightarrow> map (\<lambda>v. (l, Some v)) vs)
     @ merge_left key left right"
  by (simp add: merge_left_def)

lemma set_merge_left:
  "set (merge_left key left right) =
     {(l, None) | l. l \<in> set left \<and> key l \<notin> fst ` set right}
     \<union> {(l, Some v) | l v. l \<in> set left \<and> (key l, v) \<in> set right}"
proof -
  have m: "\<And>k. set (matches k right) = {v. (k, v) \<in> set right}"
    by (auto simp: matches_def image_iff)
  have "\<And>l. set (case matches (key l) right of [] \<Rightarrow> [(l, None)] | vs \<Rightarrow> map (\<lambda>v. (l, Some v)) vs)
      = {(l, None) | l'. l' = l \<and> key l \<notin> fst ` set right} \<union> {(l, Some v) | v. (key l, v) \<in> set right}"
    subgoal for l
      using m [of "key l"] matches_empty_iff [of "key l" right]
      by (cases "matches (key l) right") (auto simp: image_iff)
    done
  then show ?thesis
    by (auto simp: merge_left_def)
qed

lemma map_fst_merge_left:
  "map fst (merge_left key left right)
     = concat (map (\<lambda>l. replicate (max 1 (length (matches (key l) right))) l) left)"
proof (induction left)
  case Nil
  then show ?case by (simp add: merge_left_def)
next
  case (Cons l left)
  have "map fst (case matches (key l) right of [] \<Rightarrow> [(l, None)] | vs \<Rightarrow> map (\<lambda>v. (l, Some v)) vs)
     = replicate (max 1 (length (matches (key l) right))) l"
    by (cases "matches (key l) right") (simp_all add: comp_def map_replicate_const)
  with Cons show ?case by (simp add: merge_left_Cons)
qed

lemma concat_replicate_replicate:
  "concat (replicate k (replicate m x)) = replicate (k * m) x"
  by (induction k) (simp_all add: replicate_add)

lemma keys_merge_population:
  "map (\<lambda>r. (State r, geometry r)) (merge_population states pop)
     = concat (map (\<lambda>b. replicate (max 1 (length (matches (State b) pop))) (State b, geometry b)) states)"
proof -
  have "map (\<lambda>r. (State r, geometry r)) (merge_population states pop)
      = map (\<lambda>b. (State b, geometry b)) (map fst (merge_left State states pop))"
    by (simp add: merge_population_def comp_def case_prod_beta)
  then show ?thesis
    by (simp add: map_fst_merge_left map_concat comp_def)
qed

lemma keys_merge_environment:
  "map (\<lambda>r. (State r, geometry r)) (merge_environment rows env)
     = concat (map (\<lambda>kg. replicate (max 1 (length (matches (fst kg) env))) kg)
                   (map (\<lambda>r. (State r, geometry r)) rows))"
proof -
  have "map (\<lambda>r. (State r, geometry r)) (merge_environment rows env)
      = map (\<lambda>b. (State b, geometry b)) (map fst (merge_left State rows env))"
    by (simp add: merge_environment_def comp_def case_prod_beta)
  then show ?thesis
    by (simp add: map_fst_merge_left map_concat comp_def)
qed

lemma keys_merger:
  "map (\<lambda>r. (State r, geometry r)) (merger states pop env)
     = concat (map (\<lambda>b. replicate (max 1 (length (matches (State b) pop))
                                     * max 1 (length (matches (State b) env)))
                                    (State b, geometry b)) states)"
  unfolding merger_def keys_merge_environment keys_merge_population
  by (induction states) (simp_all add: concat_replicate_replicate)

lemma merger_distinct:
  assumes "distinct (map fst pop)" and "distinct (map fst env)"
  shows "merger states pop env =
     map (\<lambda>b. \<lparr>State = State b, geometry = geometry b,
                Population = (case map_of pop (State b) of None \<Rightarrow> NaN | Some v \<Rightarrow> v),
                Avg_Temperature = (case map_of env (State b) of None \<Rightarrow> NaN | Some te \<Rightarrow> fst te),
                Avg_Rainfall = (case map_of env (State b) of None \<Rightarrow> NaN | Some te \<Rightarrow> snd te)\<rparr>) states"
  using assms
  by (simp add: merger_def merge_environment_def merge_population_def merge_left_distinct comp_def)

lemma merger_unmatched:
  assumes "r \<in> set (merger states pop env)"
  shows "(State r \<notin> fst ` set pop \<longrightarrow> Population r = NaN)
       \<and> (State r \<notin> fst ` set env \<longrightarrow> Avg_Temperature r = NaN \<and> Avg_Rainfall r = NaN)"
  using assms
  by (auto simp: merger_def merge_environment_def merge_population_def set_merge_left image_iff)

subsection \<open>What each stage keeps\<close>

lemma length_matches_map:
  "length (matches k (map (\<lambda>(s, t). (s, f t)) right)) = length (matches k right)"
  by (induction right) (auto simp: matches_def)

lemma keys_lulc_weighting:
  "map (\<lambda>r. (State r, geometry r)) (lulc_weighting cow rows lulc)
     = concat (map (\<lambda>kg. replicate (max 1 (length (matches (fst kg) lulc))) kg)
                   (map (\<lambda>r. (State r, geometry r)) rows))"
proof -
  have "map (\<lambda>r. (State r, geometry r)) (lulc_weighting cow rows lulc)
      = map (\<lambda>b. (State b, geometry b))
            (map fst (merge_left State rows (map (\<lambda>(s, t). (s, series_map lulc_weight_mapping t)) lulc)))"
    by (simp add: lulc_weighting_def comp_def case_prod_beta)
  then show ?thesis
    by (simp add: map_fst_merge_left map_concat comp_def length_matches_map)
qed

lemma keys_environmental_risk:
  "map (\<lambda>r. (State r, geometry r)) (environmental_risk rows) = map (\<lambda>r. (State r, geometry r)) rows"
  by (simp add: environmental_risk_def Let_def comp_def)

lemma keys_allocate:
  "map (\<lambda>r. (State r, geometry r)) (allocate N rows) = map (\<lambda>r. (State r, geometry r)) rows"
  by (simp add: allocate_def Let_def comp_def)

lemma boundary_row_eta: "\<lparr>State = State x, geometry = geometry x\<rparr> = (x :: 'g boundary_row)"
  by (cases x) simp

lemma pop_row_eta:
  "\<lparr>State = State x, geometry = geometry x, Population = Population x\<rparr> = (x :: 'g pop_row)"
  by (cases x) simp

lemma env_row_eta:
  "\<lparr>State = State x, geometry = geometry x, Population = Population x,
    Avg_Temperature = Avg_Temperature x, Avg_Rainfall = Avg_Rainfall x\<rparr> = (x :: 'g env_row)"
  by (cases x) simp

lemma lulc_row_eta:
  "\<lparr>State = State x, geometry = geometry x, Population = Population x,
    Avg_Temperature = Avg_Temperature x, Avg_Rainfall = Avg_Rainfall x,
    LULC_Weight = LULC_Weight x\<rparr> = (x :: 'g lulc_row)"
  by (cases x) simp

lemma risk_row_eta:
  "\<lparr>State = State x, geometry = geometry x, Population = Population x,
    Avg_Temperature = Avg_Temperature x, Avg_Rainfall = Avg_Rainfall x,
    LULC_Weight = LULC_Weight x, Temp_Score = Temp_Score x, Rain_Score = Rain_Score x,
    Env_Risk = Env_Risk x\<rparr> = (x :: 'g risk_row)"
  by (cases x) simp

lemma truncate_environmental_risk:
  "map lulc_row.truncate (environmental_risk rows) = rows"
  by (simp add: environmental_risk_def Let_def comp_def lulc_row.truncate_def lulc_row_eta)

lemma truncate_allocate:
  "map risk_row.truncate (allocate N rows) = rows"
  by (simp add: allocate_def Let_def comp_def risk_row.truncate_def risk_row_eta)

lemma truncate_merge_population:
  "r \<in> set (merge_population states pop) \<Longrightarrow> boundary_row.truncate r \<in> set states"
  by (auto simp: merge_population_def set_merge_left boundary_row.truncate_def boundary_row_eta)

lemma truncate_merge_environment:
  "r \<in> set (merge_environment rows env) \<Longrightarrow> pop_row.truncate r \<in> set rows"
  by (auto simp: merge_environment_def set_merge_left pop_row.truncate_def pop_row_eta)

lemma truncate_lulc_weighting:
  "r \<in> set (lulc_weighting cow rows lulc) \<Longrightarrow> env_row.truncate r \<in> set rows"
  by (auto simp: lulc_weighting_def set_merge_left env_row.truncate_def env_row_eta)

lemma keys_disaggregate:
  "map (\<lambda>r. (State r, geometry r)) (disaggregate cow N states pop env lulc)
     = concat (map (\<lambda>b. replicate (max 1 (length (matches (State b) pop))
                                     * max 1 (length (matches (State b) env))
                                     * max 1 (length (matches (State b) lulc)))
                                    (State b, geometry b)) states)"
  unfolding disaggregate_def keys_allocate keys_environmental_risk keys_lulc_weighting keys_merger
  by (induction states) (simp_all add: concat_replicate_replicate)

lemma matches_distinct_length:
  "distinct (map fst right) \<Longrightarrow> max 1 (length (matches k right)) = 1"
  by (simp add: matches_distinct split: option.split)

lemma lulc_weighting_weights:
  "map (\<lambda>r. (State r, LULC_Weight r)) (lulc_weighting cow rows lulc)
     = concat (map (\<lambda>r. case matches (State r) lulc of
                            [] \<Rightarrow> [(State r, chained_fillna cow 1 NaN)]
                          | ts \<Rightarrow> map (\<lambda>t. (State r, chained_fillna cow 1 (series_map lulc_weight_mapping t))) ts)
                   rows)"
proof (induction rows)
  case Nil
  then show ?case by (simp add: lulc_weighting_def merge_left_def)
next
  case (Cons r rows)
  have "lulc_weighting cow (r # rows) lulc = lulc_weighting cow [r] lulc @ lulc_weighting cow rows lulc"
    by (simp add: lulc_weighting_def merge_left_def)
  moreover have "map (\<lambda>r. (State r, LULC_Weight r)) (lulc_weighting cow [r] lulc)
     = (case matches (State r) lulc of
                            [] \<Rightarrow> [(State r, chained_fillna cow 1 NaN)]
                          | ts \<Rightarrow> map (\<lambda>t. (State r, chained_fillna cow 1 (series_map lulc_weight_mapping t))) ts)"
    by (cases "matches (State r) lulc")
       (simp_all add: lulc_weighting_def merge_left_def matches_map comp_def)
  ultimately show ?case using Cons by simp
qed

lemma fillna_lulc_weight:
  "fillna 1 (series_map lulc_weight_mapping t) \<in> {Num 1.5, Num 1.3, Num 1, Num 0.5}"
  by (simp add: fillna_def series_map_def lulc_weight_mapping_def)

lemma allocate_environmental_risk_NaN:
  assumes "r \<in> set (allocate N (environmental_risk rows))"
    and "Population r = NaN \<or> Avg_Temperature r = NaN \<or> Avg_Rainfall r = NaN"
  shows "Allocated_Cases r = NaN"
  using assms
  by (auto simp: allocate_def environmental_risk_def Let_def state_weight_def temp_score_NaN
      fmul_NaN_right)

lemma allocate_environmental_risk_fields:
  assumes "r \<in> set (allocate N (environmental_risk rows))"
  shows "\<exists>x\<in>set rows. State r = State x \<and> Population r = Population x
           \<and> Avg_Temperature r = Avg_Temperature x \<and> Avg_Rainfall r = Avg_Rainfall x
           \<and> LULC_Weight r = LULC_Weight x"
  using assms by (auto simp: allocate_def environmental_risk_def Let_def)

lemma lulc_weighting_fields:
  assumes "x \<in> set (lulc_weighting cow rows lulc)"
  shows "\<exists>m\<in>set rows. State x = State m \<and> Population x = Population m
              \<and> Avg_Temperature x = Avg_Temperature m \<and> Avg_Rainfall x = Avg_Rainfall m"
  using assms
  by (auto simp: lulc_weighting_def set_merge_left image_iff)

lemma lulc_weighting_filled:
  assumes "x \<in> set (lulc_weighting False rows lulc)"
  shows "LULC_Weight x \<noteq> NaN \<and> (State x \<notin> fst ` set lulc \<longrightarrow> LULC_Weight x = Num 1)"
  using assms
  by (auto simp: lulc_weighting_def chained_fillna_def set_merge_left fillna_not_NaN fillna_NaN
      image_iff)

lemma weights_allocate_environmental_risk:
  "map (\<lambda>r. (State r, LULC_Weight r)) (allocate N (environmental_risk rows))
     = map (\<lambda>r. (State r, LULC_Weight r)) rows"
  by (simp add: allocate_def environmental_risk_def Let_def comp_def)

lemma concat_map_concat_replicate:
  "concat (map W (concat (map (\<lambda>b. replicate (k b) (f b)) bs)))
     = concat (map (\<lambda>b. concat (replicate (k b) (W (f b)))) bs)"
  by (induction bs) (simp_all add: map_replicate)

lemma states_merger:
  "map State (merger states pop env)
     = concat (map (\<lambda>b. replicate (max 1 (length (matches (State b) pop))
                                     * max 1 (length (matches (State b) env))) (State b)) states)"
proof -
  have "map State (merger states pop env)
      = map fst (map (\<lambda>r. (State r, geometry r)) (merger states pop env))"
    by (simp add: comp_def)
  then show ?thesis
    unfolding keys_merger by (simp add: map_concat comp_def)
qed

lemma weights_disaggregate:
  "map (\<lambda>r. (State r, LULC_Weight r)) (disaggregate cow N states pop env lulc)
     = concat (map (\<lambda>b. concat (replicate
                 (max 1 (length (matches (State b) pop)) * max 1 (length (matches (State b) env)))
                 (case matches (State b) lulc of
                    [] \<Rightarrow> [(State b, chained_fillna cow 1 NaN)]
                  | ts \<Rightarrow> map (\<lambda>t. (State b, chained_fillna cow 1 (series_map lulc_weight_mapping t))) ts)))
               states)"
proof -
  let ?W = "\<lambda>s. case matches s lulc of
                    [] \<Rightarrow> [(s, chained_fillna cow 1 NaN)]
                  | ts \<Rightarrow> map (\<lambda>t. (s, chained_fillna cow 1 (series_map lulc_weight_mapping t))) ts"
  have "map (\<lambda>r. (State r, LULC_Weight r)) (disaggregate cow N states pop env lulc)
      = concat (map ?W (map State (merger states pop env)))"
    by (simp add: disaggregate_def weights_allocate_environmental_risk lulc_weighting_weights comp_def)
  then show ?thesis
    unfolding states_merger concat_map_concat_replicate .
qed

lemma disaggregate_row:
  assumes "r \<in> set (disaggregate cow N states pop env lulc)"
  shows "(State r \<notin> fst ` set pop \<longrightarrow> Population r = NaN)
       \<and> (State r \<notin> fst ` set env \<longrightarrow> Avg_Temperature r = NaN \<and> Avg_Rainfall r = NaN)
       \<and> (Population r = NaN \<or> Avg_Temperature r = NaN \<or> Avg_Rainfall r = NaN \<longrightarrow>
             Allocated_Cases r = NaN)"
proof -
  from assms have r: "r \<in> set (allocate N (environmental_risk
      (lulc_weighting cow (merger states pop env) lulc)))"
    by (simp add: disaggregate_def)
  from allocate_environmental_risk_fields [OF r]
  obtain x where x: "x \<in> set (lulc_weighting cow (merger states pop env) lulc)"
    and rx: "State r = State x" "Population r = Population x"
      "Avg_Temperature r = Avg_Temperature x" "Avg_Rainfall r = Avg_Rainfall x"
    by blast
  from lulc_weighting_fields [OF x]
  obtain m where m: "m \<in> set (merger states pop env)"
    and xm: "State x = State m" "Population x = Population m"
      "Avg_Temperature x = Avg_Temperature m" "Avg_Rainfall x = Avg_Rainfall m"
    by blast
  show ?thesis
    using rx xm merger_unmatched [OF m] allocate_environmental_risk_NaN [OF r] by simp
qed

lemma boundary_state_exported:
  fixes states :: "'g boundary_row list"
  assumes "b \<in> set states"
  shows "\<exists>r\<in>set (disaggregate cow N states pop env lulc). State r = State b \<and> geometry r = geometry b"
proof -
  let ?k = "\<lambda>b :: 'g boundary_row. max 1 (length (matches (State b) pop))
                 * max 1 (length (matches (State b) env))
                 * max 1 (length (matches (State b) lulc))"
  have p: "\<And>n::nat. max 1 n \<noteq> 0"
    by arith
  have kb: "?k b \<noteq> 0"
    unfolding mult_eq_0_iff using p by blast
  have "(State b, geometry b) \<in> set (replicate (?k b) (State b, geometry b))"
    unfolding in_set_replicate using kb by (rule conjI [OF refl])
  with assms have "(State b, geometry b)
      \<in> set (concat (map (\<lambda>b. replicate (?k b) (State b, geometry b)) states))"
    unfolding set_concat set_map by blast
  then have "(State b, geometry b)
      \<in> set (map (\<lambda>r. (State r, geometry r)) (disaggregate cow N states pop env lulc))"
    unfolding keys_disaggregate .
  then show ?thesis
    by auto
qed

lemma weights_disaggregate_filled:
  "map (\<lambda>r. (State r, LULC_Weight r)) (disaggregate False N states pop env lulc)
     = concat (map (\<lambda>b. concat (replicate
                 (max 1 (length (matches (State b) pop)) * max 1 (length (matches (State b) env)))
                 (case matches (State b) lulc of
                    [] \<Rightarrow> [(State b, Num 1)]
                  | ts \<Rightarrow> map (\<lambda>t. (State b, case lulc_weight_mapping t of
                                                   None \<Rightarrow> Num 1 | Some w \<Rightarrow> w)) ts)))
               states)"
proof -
  have f: "\<And>t. chained_fillna False 1 (series_map lulc_weight_mapping t)
      = (case lulc_weight_mapping t of None \<Rightarrow> Num 1 | Some w \<Rightarrow> w)"
    by (simp only: chained_fillna_def if_False fillna_lulc_weight_mapping)
  have n: "chained_fillna False 1 NaN = Num 1"
    by (simp only: chained_fillna_def if_False fillna_NaN)
  show ?thesis
    unfolding weights_disaggregate f n ..
qed

lemma disaggregate_filled:
  assumes "r \<in> set (disaggregate False N states pop env lulc)"
  shows "LULC_Weight r \<noteq> NaN \<and> (State r \<notin> fst ` set lulc \<longrightarrow> LULC_Weight r = Num 1)"
proof -
  from assms have r: "r \<in> set (allocate N (environmental_risk
      (lulc_weighting False (merger states pop env) lulc)))"
    by (simp add: disaggregate_def)
  from allocate_environmental_risk_fields [OF r]
  obtain x where x: "x \<in> set (lulc_weighting False (merger states pop env) lulc)"
    and rx: "State r = State x" "LULC_Weight r = LULC_Weight x"
    by blast
  from lulc_weighting_filled [OF x] rx show ?thesis
    by simp
qed

lemma csv_notebook:
  "map (\<lambda>l. (fst l, last (snd l))) (csv (notebook cow N states pop env lulc))
     = map (\<lambda>r. (State r, Allocated_Cases r)) (shp (notebook cow N states pop env lulc))"
  by (simp add: notebook_def export_def csv_line_def comp_def)

lemma shp_notebook: "shp (notebook cow N states pop env lulc) = disaggregate cow N states pop env lulc"
  by (simp add: notebook_def export_def)

subsection \<open>Temperature score\<close>

text \<open>
  C2.  For every temperature T the temperature score is max(0, 1 - |T - 26| / 6); it lies
  in [0, 1]; it is 1 at 26, 0 at 32, and 0 (clipped, not negative) at 38.
\<close>

theorem temp_score_formula:
  "temp_score (Num t) = Num (max 0 (1 - \<bar>t - 26\<bar> / 6))
   \<and> (\<exists>s. temp_score (Num t) = Num s \<and> 0 \<le> s \<and> s \<le> 1)
   \<and> temp_score (Num 26) = Num 1
   \<and> temp_score (Num 32) = Num 0
   \<and> temp_score (Num 38) = Num 0
   \<and> temp_score PInf = Num 0 \<and> temp_score NInf = Num 0"
  by (simp add: temp_score_def fsub_def optimal_temp_def temp_range_def)

theorem temp_score_formula_witness:
  "temp_score (Num 29) = Num (1 / 2)"
  using temp_score_formula [of 29] by simp

subsection \<open>Allocation\<close>

text \<open>
  C1.  When the total weight is a positive number t, every state is allocated
  (state_weight / t) * N with state_weight = Population * Env_Risk, and the allocated
  cases sum to the national incidence N: as pandas sums them (a state with a missing
  weight has a missing allocation and is skipped), and as a plain sum over all states
  when no state weight is missing.
\<close>

theorem allocation_sums_to_national:
  assumes "total_weight rows = Num t" and "0 < t"
  shows "(\<forall>r\<in>set (allocate N rows).
            State_Weight r = fmul (Population r) (Env_Risk r)
          \<and> Allocated_Cases r = fmul (fdiv (State_Weight r) (Num t)) (Num N)
          \<and> (\<forall>w. State_Weight r = Num w \<longrightarrow> Allocated_Cases r = Num (w / t * N)))
       \<and> series_sum (map Allocated_Cases (allocate N rows)) = Num N
       \<and> (NaN \<notin> set (map state_weight rows) \<longrightarrow>
            fsum (map Allocated_Cases (allocate N rows)) = Num N)"
proof (intro conjI)
  show "\<forall>r\<in>set (allocate N rows).
            State_Weight r = fmul (Population r) (Env_Risk r)
          \<and> Allocated_Cases r = fmul (fdiv (State_Weight r) (Num t)) (Num N)
          \<and> (\<forall>w. State_Weight r = Num w \<longrightarrow> Allocated_Cases r = Num (w / t * N))"
    using assms by (auto simp: allocate_def Let_def state_weight_def)
  have sw: "series_sum (map state_weight rows) = Num t"
    using assms(1) by (simp add: total_weight_def)
  have t0: "t \<noteq> 0" using assms(2) by simp
  have "series_sum (map Allocated_Cases (allocate N rows)) = Num (t / t * N)"
    unfolding Allocated_Cases_allocate assms(1) using sw t0 by (rule series_sum_scale)
  then show sum: "series_sum (map Allocated_Cases (allocate N rows)) = Num N"
    using t0 by simp
  show "NaN \<notin> set (map state_weight rows) \<longrightarrow>
            fsum (map Allocated_Cases (allocate N rows)) = Num N"
  proof
    assume nn: "NaN \<notin> set (map state_weight rows)"
    then have "fsum (map state_weight rows) = Num t"
      using sw by (simp add: series_sum_def dropna_id)
    then have "fsum (map (\<lambda>x. fmul (fdiv x (Num t)) (Num N)) (map state_weight rows)) = Num (t / t * N)"
      using t0 by (rule fsum_scale)
    then show "fsum (map Allocated_Cases (allocate N rows)) = Num N"
      unfolding Allocated_Cases_allocate assms(1) using t0 by simp
  qed
qed

theorem allocation_sums_to_national_witness:
  "total_weight example_risk = Num 100
   \<and> map Allocated_Cases (allocate 1000 example_risk) = [Num 500, Num 375, Num 125]
   \<and> fsum (map Allocated_Cases (allocate 1000 example_risk)) = Num 1000"
proof -
  have tw: "total_weight example_risk = Num 100"
    by (simp add: example_risk_def example_defs stage_defs)
  have nn: "NaN \<notin> set (map state_weight example_risk)"
    by (simp add: example_risk_def example_defs stage_defs)
  have "map Allocated_Cases (allocate 1000 example_risk) = [Num 500, Num 375, Num 125]"
    by (simp add: example_risk_def example_defs stage_defs)
  with tw nn allocation_sums_to_national [OF tw, of 1000] show ?thesis
    by simp
qed

subsection \<open>Rainfall score when no state has rain\<close>

text \<open>
  When every state has rainfall 0 the maximum rainfall is 0; the scorer still divides and
  every rainfall score is NaN.
\<close>

theorem zero_max_rainfall_counterexample:
  "max_rainfall (lulc_weighting False (merger example_states example_pop dry_env) example_lulc) = Num 0
   \<and> map Rain_Score (environmental_risk
          (lulc_weighting False (merger example_states example_pop dry_env) example_lulc))
       = [NaN, NaN, NaN]
   \<and> max_rainfall (lulc_weighting True (merger example_states example_pop dry_env) example_lulc) = Num 0
   \<and> map Rain_Score (environmental_risk
          (lulc_weighting True (merger example_states example_pop dry_env) example_lulc))
       = [NaN, NaN, NaN]"
  by (simp add: dry_env_def example_defs stage_defs)

text \<open>
  C3 (as the code does it).  When the maximum rainfall is 0 the scorer raises nothing and
  divides every rainfall by 0: it returns a row for every state, none with a finite
  rainfall score; a state whose rainfall is 0 or missing gets the rainfall score NaN and
  the environmental risk NaN.
\<close>

theorem zero_max_rainfall_divides:
  "max_rainfall rows = Num 0 \<Longrightarrow>
   length (environmental_risk rows) = length rows
   \<and> (\<forall>r\<in>set (environmental_risk rows).
          Rain_Score r = fdiv (Avg_Rainfall r) (Num 0)
        \<and> \<not> is_finite (Rain_Score r)
        \<and> (Avg_Rainfall r = Num 0 \<or> Avg_Rainfall r = NaN \<longrightarrow> Rain_Score r = NaN \<and> Env_Risk r = NaN))"
  by (auto simp: environmental_risk_def Let_def fdiv_zero_not_finite fmul_NaN_right)

theorem zero_max_rainfall_divides_witness:
  "max_rainfall (lulc_weighting False (merger example_states example_pop dry_env) example_lulc) = Num 0
   \<and> list_all (\<lambda>r. \<not> is_finite (Rain_Score r))
         (environmental_risk (lulc_weighting False (merger example_states example_pop dry_env) example_lulc))
   \<and> length (environmental_risk
         (lulc_weighting False (merger example_states example_pop dry_env) example_lulc)) = 3"
proof -
  let ?rows = "lulc_weighting False (merger example_states example_pop dry_env) example_lulc"
  have m: "max_rainfall ?rows = Num 0"
    by (simp add: dry_env_def example_defs stage_defs)
  have l: "length ?rows = 3"
    by (simp add: dry_env_def example_defs stage_defs)
  from zero_max_rainfall_divides [OF m]
  have "length (environmental_risk ?rows) = length ?rows"
    and "\<forall>r\<in>set (environmental_risk ?rows). \<not> is_finite (Rain_Score r)"
    by blast+
  with m l show ?thesis
    by (simp add: list_all_iff)
qed

subsection \<open>Allocation when the total weight is zero\<close>

text \<open>
  When every population is 0 the total weight is 0; the allocator still divides and every
  allocation is NaN.
\<close>

theorem zero_total_weight_counterexample:
  "total_weight (environmental_risk
          (lulc_weighting False (merger example_states zero_pop example_env) example_lulc)) = Num 0
   \<and> map Allocated_Cases (disaggregate False 1000 example_states zero_pop example_env example_lulc)
       = [NaN, NaN, NaN]
   \<and> total_weight (environmental_risk
          (lulc_weighting True (merger example_states zero_pop example_env) example_lulc)) = Num 0
   \<and> map Allocated_Cases (disaggregate True 1000 example_states zero_pop example_env example_lulc)
       = [NaN, NaN, NaN]"
  by (simp add: disaggregate_def zero_pop_def example_defs stage_defs)

text \<open>
  C4 (as the code does it).  When the total weight is 0 the allocator raises nothing and
  divides every state weight by 0: it returns a row for every state, none with a finite
  allocation; a state whose weight is 0 or missing is allocated NaN.
\<close>

theorem zero_total_weight_divides:
  "total_weight rows = Num 0 \<Longrightarrow>
   length (allocate N rows) = length rows
   \<and> (\<forall>r\<in>set (allocate N rows).
          Allocated_Cases r = fmul (fdiv (State_Weight r) (Num 0)) (Num N)
        \<and> \<not> is_finite (Allocated_Cases r)
        \<and> (State_Weight r = Num 0 \<or> State_Weight r = NaN \<longrightarrow> Allocated_Cases r = NaN))"
  by (auto simp: allocate_def Let_def fdiv_zero_not_finite fmul_not_finite)

theorem zero_total_weight_divides_witness:
  "total_weight (environmental_risk
          (lulc_weighting False (merger example_states zero_pop example_env) example_lulc)) = Num 0
   \<and> list_all (\<lambda>r. \<not> is_finite (Allocated_Cases r))
         (allocate 1000 (environmental_risk
            (lulc_weighting False (merger example_states zero_pop example_env) example_lulc)))
   \<and> length (allocate 1000 (environmental_risk
         (lulc_weighting False (merger example_states zero_pop example_env) example_lulc))) = 3"
proof -
  let ?rows = "environmental_risk (lulc_weighting False (merger example_states zero_pop example_env) example_lulc)"
  have t: "total_weight ?rows = Num 0"
    by (simp add: zero_pop_def example_defs stage_defs)
  have l: "length ?rows = 3"
    by (simp add: zero_pop_def example_defs stage_defs)
  from zero_total_weight_divides [OF t, of 1000]
  have "length (allocate 1000 ?rows) = length ?rows"
    and "\<forall>r\<in>set (allocate 1000 ?rows). \<not> is_finite (Allocated_Cases r)"
    by blast+
  with t l show ?thesis
    by (simp add: list_all_iff)
qed

subsection \<open>LULC weighting\<close>

text \<open>
  State A has the two category records Urban and Water, and every state has a record of a
  category in the table: in either mode of the chained fill the weighted frame has two
  rows for A, with the weights 1.5 and 0.5, and no row with their average.
\<close>

theorem lulc_multiple_records_counterexample:
  "map (\<lambda>r. (State r, LULC_Weight r))
       (lulc_weighting False (merger example_states example_pop example_env) two_category_lulc)
     = [(''A'', Num 1.5), (''A'', Num 0.5), (''B'', Num 1.5), (''C'', Num 1)]
   \<and> map (\<lambda>r. (State r, LULC_Weight r))
       (lulc_weighting True (merger example_states example_pop example_env) two_category_lulc)
     = [(''A'', Num 1.5), (''A'', Num 0.5), (''B'', Num 1.5), (''C'', Num 1)]"
  by (simp add: two_category_lulc_def example_defs stage_defs)

text \<open>
  C5 (as the code does it).  LULC weighting never fails.  In either mode of the chained
  fill, a state with category records gets one row per record, in the records' order, and
  a record of a category in the table carries that category's table weight, with no
  averaging: a state whose only record is Urban gets 1.5, and a state with the records
  Urban and Water gets two rows, 1.5 and 0.5.  Where the chained fill updates the frame
  (pandas without Copy-on-Write), a state with no category record gets one row with the
  default 1.0, a record of a category that is not in the table gets 1.0, and every weight
  attached is one of 1.5, 1.3, 1.0, 0.5.
\<close>

theorem lulc_weighting_per_record:
  "map (\<lambda>r. (State r, LULC_Weight r)) (lulc_weighting cow rows lulc)
     = concat (map (\<lambda>r. case matches (State r) lulc of
                            [] \<Rightarrow> [(State r, chained_fillna cow 1 NaN)]
                          | ts \<Rightarrow> map (\<lambda>t. (State r, chained_fillna cow 1 (series_map lulc_weight_mapping t))) ts)
                   rows)
   \<and> (lulc_weight_mapping t = Some w \<longrightarrow> chained_fillna cow 1 (series_map lulc_weight_mapping t) = w)
   \<and> (matches (State x) lulc = [''Urban''] \<longrightarrow> map LULC_Weight (lulc_weighting cow [x] lulc) = [Num 1.5])
   \<and> (matches (State x) lulc = [''Urban'', ''Water''] \<longrightarrow>
         map LULC_Weight (lulc_weighting cow [x] lulc) = [Num 1.5, Num 0.5])
   \<and> (\<not> cow \<longrightarrow>
         chained_fillna cow 1 NaN = Num 1
       \<and> (lulc_weight_mapping t = None \<longrightarrow> chained_fillna cow 1 (series_map lulc_weight_mapping t) = Num 1)
       \<and> (matches (State x) lulc = [] \<longrightarrow> map LULC_Weight (lulc_weighting cow [x] lulc) = [Num 1])
       \<and> (\<forall>r\<in>set (lulc_weighting cow rows lulc). LULC_Weight r \<in> {Num 1.5, Num 1.3, Num 1, Num 0.5}))"
proof -
  have w: "map LULC_Weight (lulc_weighting cow [x] lulc)
      = map snd (map (\<lambda>r. (State r, LULC_Weight r)) (lulc_weighting cow [x] lulc))"
    by (simp add: comp_def)
  have 2: "lulc_weight_mapping t = Some w \<longrightarrow> chained_fillna cow 1 (series_map lulc_weight_mapping t) = w"
    by (simp add: chained_fillna_mapped)
  have 3: "matches (State x) lulc = [''Urban''] \<longrightarrow> map LULC_Weight (lulc_weighting cow [x] lulc) = [Num 1.5]"
    unfolding w lulc_weighting_weights
    by (simp add: chained_fillna_def fillna_def series_map_def lulc_weight_mapping_def)
  have 4: "matches (State x) lulc = [''Urban'', ''Water''] \<longrightarrow>
         map LULC_Weight (lulc_weighting cow [x] lulc) = [Num 1.5, Num 0.5]"
    unfolding w lulc_weighting_weights
    by (simp add: chained_fillna_def fillna_def series_map_def lulc_weight_mapping_def)
  have 5: "\<not> cow \<longrightarrow>
         chained_fillna cow 1 NaN = Num 1
       \<and> (lulc_weight_mapping t = None \<longrightarrow> chained_fillna cow 1 (series_map lulc_weight_mapping t) = Num 1)
       \<and> (matches (State x) lulc = [] \<longrightarrow> map LULC_Weight (lulc_weighting cow [x] lulc) = [Num 1])
       \<and> (\<forall>r\<in>set (lulc_weighting cow rows lulc). LULC_Weight r \<in> {Num 1.5, Num 1.3, Num 1, Num 0.5})"
  proof
    assume "\<not> cow"
    then have c: "cow = False" by simp
    have a: "chained_fillna cow 1 NaN = Num 1"
      by (simp add: c chained_fillna_def fillna_def)
    have b: "lulc_weight_mapping t = None \<longrightarrow> chained_fillna cow 1 (series_map lulc_weight_mapping t) = Num 1"
      by (simp add: c chained_fillna_def fillna_def series_map_def)
    have d: "matches (State x) lulc = [] \<longrightarrow> map LULC_Weight (lulc_weighting cow [x] lulc) = [Num 1]"
      unfolding w lulc_weighting_weights by (simp add: a)
    have e: "\<forall>r\<in>set (lulc_weighting cow rows lulc). LULC_Weight r \<in> {Num 1.5, Num 1.3, Num 1, Num 0.5}"
    proof
      fix r assume "r \<in> set (lulc_weighting cow rows lulc)"
      then have "(State r, LULC_Weight r)
          \<in> set (map (\<lambda>r. (State r, LULC_Weight r)) (lulc_weighting cow rows lulc))"
        by (simp add: image_iff) blast
      then obtain y where "y \<in> set rows" and
        m: "(State r, LULC_Weight r) \<in> set (case matches (State y) lulc of
                            [] \<Rightarrow> [(State y, chained_fillna cow 1 NaN)]
                          | ts \<Rightarrow> map (\<lambda>t. (State y, chained_fillna cow 1 (series_map lulc_weight_mapping t))) ts)"
        unfolding lulc_weighting_weights by auto
      show "LULC_Weight r \<in> {Num 1.5, Num 1.3, Num 1, Num 0.5}"
      proof (cases "matches (State y) lulc")
        case Nil
        with m a show ?thesis by simp
      next
        case (Cons t' ts)
        with m obtain u where "LULC_Weight r = chained_fillna cow 1 (series_map lulc_weight_mapping u)"
          by auto
        then have "LULC_Weight r = fillna 1 (series_map lulc_weight_mapping u)"
          by (simp add: c chained_fillna_def)
        then show ?thesis using fillna_lulc_weight [of u] by simp
      qed
    qed
    from a b d e show "chained_fillna cow 1 NaN = Num 1
       \<and> (lulc_weight_mapping t = None \<longrightarrow> chained_fillna cow 1 (series_map lulc_weight_mapping t) = Num 1)
       \<and> (matches (State x) lulc = [] \<longrightarrow> map LULC_Weight (lulc_weighting cow [x] lulc) = [Num 1])
       \<and> (\<forall>r\<in>set (lulc_weighting cow rows lulc). LULC_Weight r \<in> {Num 1.5, Num 1.3, Num 1, Num 0.5})"
      by blast
  qed
  from 2 3 4 5 lulc_weighting_weights [of cow rows lulc] show ?thesis by blast
qed

theorem lulc_weighting_per_record_witness:
  "matches ''A'' two_category_lulc = [''Urban'', ''Water'']
   \<and> map LULC_Weight (lulc_weighting True
         [\<lparr>State = ''A'', geometry = (1::nat), Population = Num 100,
           Avg_Temperature = Num 26, Avg_Rainfall = Num 100\<rparr>] two_category_lulc)
       = [Num 1.5, Num 0.5]
   \<and> matches ''B'' unmapped_lulc = []
   \<and> map LULC_Weight (lulc_weighting False
         [\<lparr>State = ''B'', geometry = (2::nat), Population = Num 200,
           Avg_Temperature = Num 29, Avg_Rainfall = Num 50\<rparr>] unmapped_lulc)
       = [Num 1]
   \<and> map (\<lambda>r. (State r, LULC_Weight r))
         (lulc_weighting False (merger example_states example_pop example_env) unmapped_lulc)
       = [(''A'', Num 1), (''B'', Num 1), (''C'', Num 1)]"
proof -
  let ?a = "\<lparr>State = ''A'', geometry = (1::nat), Population = Num 100,
           Avg_Temperature = Num 26, Avg_Rainfall = Num 100\<rparr>"
  let ?b = "\<lparr>State = ''B'', geometry = (2::nat), Population = Num 200,
           Avg_Temperature = Num 29, Avg_Rainfall = Num 50\<rparr>"
  let ?rows = "merger example_states example_pop example_env"
  have ma: "matches (State ?a) two_category_lulc = [''Urban'', ''Water'']"
    by (simp add: matches_def two_category_lulc_def)
  have mb: "matches (State ?b) unmapped_lulc = []"
    by (simp add: matches_def unmapped_lulc_def)
  from lulc_weighting_per_record [of True "[]" two_category_lulc _ _ ?a] ma
  have 1: "map LULC_Weight (lulc_weighting True [?a] two_category_lulc) = [Num 1.5, Num 0.5]"
    by blast
  from lulc_weighting_per_record [of False ?rows unmapped_lulc _ _ ?b] mb
  have 2: "map LULC_Weight (lulc_weighting False [?b] unmapped_lulc) = [Num 1]"
    and 3: "map (\<lambda>r. (State r, LULC_Weight r)) (lulc_weighting False ?rows unmapped_lulc)
     = concat (map (\<lambda>r. case matches (State r) unmapped_lulc of
                            [] \<Rightarrow> [(State r, chained_fillna False 1 NaN)]
                          | ts \<Rightarrow> map (\<lambda>t. (State r, chained_fillna False 1 (series_map lulc_weight_mapping t))) ts)
                   ?rows)"
    by blast+
  have 4: "concat (map (\<lambda>r. case matches (State r) unmapped_lulc of
                            [] \<Rightarrow> [(State r, chained_fillna False 1 NaN)]
                          | ts \<Rightarrow> map (\<lambda>t. (State r, chained_fillna False 1 (series_map lulc_weight_mapping t))) ts)
                   ?rows)
       = [(''A'', Num 1), (''B'', Num 1), (''C'', Num 1)]"
    by (simp add: unmapped_lulc_def example_defs stage_defs)
  from ma mb 1 2 3 4 show ?thesis
    by simp
qed

subsection \<open>The merger\<close>

text \<open>
  C6.  The merger is a left join on the boundary rows: every boundary entry is in the
  output; an output row whose state has no population row has a null population, and one
  whose state has no environmental row has null temperature and rainfall; the states of
  the output are the boundary states in boundary order, each repeated once per matching
  combination of rows (at least once); with one row per state in both tables the output
  has exactly the boundary's states, in order, each with the values looked up for it.
\<close>

theorem merger_left_join:
  "(\<forall>b\<in>set states. \<exists>r\<in>set (merger states pop env). State r = State b \<and> geometry r = geometry b)
   \<and> (\<forall>r\<in>set (merger states pop env).
         (State r \<notin> fst ` set pop \<longrightarrow> Population r = NaN)
       \<and> (State r \<notin> fst ` set env \<longrightarrow> Avg_Temperature r = NaN \<and> Avg_Rainfall r = NaN))
   \<and> map (\<lambda>r. (State r, geometry r)) (merger states pop env)
       = concat (map (\<lambda>b. replicate (max 1 (length (matches (State b) pop))
                                       * max 1 (length (matches (State b) env)))
                                      (State b, geometry b)) states)
   \<and> (distinct (map fst pop) \<and> distinct (map fst env) \<longrightarrow>
        map State (merger states pop env) = map State states
      \<and> merger states pop env =
          map (\<lambda>b. \<lparr>State = State b, geometry = geometry b,
                Population = (case map_of pop (State b) of None \<Rightarrow> NaN | Some v \<Rightarrow> v),
                Avg_Temperature = (case map_of env (State b) of None \<Rightarrow> NaN | Some te \<Rightarrow> fst te),
                Avg_Rainfall = (case map_of env (State b) of None \<Rightarrow> NaN | Some te \<Rightarrow> snd te)\<rparr>) states)"
proof -
  have 1: "\<forall>b\<in>set states. \<exists>r\<in>set (merger states pop env). State r = State b \<and> geometry r = geometry b"
  proof
    fix b assume b: "b \<in> set states"
    have "(State b, geometry b) \<in> set (map (\<lambda>r. (State r, geometry r)) (merger states pop env))"
      unfolding keys_merger using b by auto
    then show "\<exists>r\<in>set (merger states pop env). State r = State b \<and> geometry r = geometry b"
      by auto
  qed
  have 2: "\<forall>r\<in>set (merger states pop env).
         (State r \<notin> fst ` set pop \<longrightarrow> Population r = NaN)
       \<and> (State r \<notin> fst ` set env \<longrightarrow> Avg_Temperature r = NaN \<and> Avg_Rainfall r = NaN)"
    using merger_unmatched by blast
  have 3: "distinct (map fst pop) \<and> distinct (map fst env) \<longrightarrow>
        map State (merger states pop env) = map State states
      \<and> merger states pop env =
          map (\<lambda>b. \<lparr>State = State b, geometry = geometry b,
                Population = (case map_of pop (State b) of None \<Rightarrow> NaN | Some v \<Rightarrow> v),
                Avg_Temperature = (case map_of env (State b) of None \<Rightarrow> NaN | Some te \<Rightarrow> fst te),
                Avg_Rainfall = (case map_of env (State b) of None \<Rightarrow> NaN | Some te \<Rightarrow> snd te)\<rparr>) states"
    by (simp add: merger_distinct comp_def)
  from 1 2 3 keys_merger [of states pop env] show ?thesis
    by blast
qed

theorem merger_left_join_witness:
  "distinct (map fst partial_pop) \<and> distinct (map fst example_env)
   \<and> map State (merger example_states partial_pop example_env) = [''A'', ''B'', ''C'']
   \<and> map Population (merger example_states partial_pop example_env) = [Num 100, NaN, Num 50]
   \<and> map geometry (merger example_states partial_pop example_env) = [1, 2, 3]"
proof -
  have d: "distinct (map fst partial_pop) \<and> distinct (map fst example_env)"
    by (simp add: partial_pop_def example_defs)
  with merger_left_join [of example_states partial_pop example_env]
  have "merger example_states partial_pop example_env =
          map (\<lambda>b. \<lparr>State = State b, geometry = geometry b,
                Population = (case map_of partial_pop (State b) of None \<Rightarrow> NaN | Some v \<Rightarrow> v),
                Avg_Temperature = (case map_of example_env (State b) of None \<Rightarrow> NaN | Some te \<Rightarrow> fst te),
                Avg_Rainfall = (case map_of example_env (State b) of None \<Rightarrow> NaN | Some te \<Rightarrow> snd te)\<rparr>) example_states"
    by blast
  with d show ?thesis
    by (simp add: partial_pop_def example_defs)
qed

subsection \<open>Missing values\<close>

text \<open>
  State B has no environmental row: in either mode of the chained fill, B is exported
  with NaN as its allocation, in the frame and in the CSV lines.
\<close>

theorem missing_values_counterexample:
  "map (\<lambda>r. (State r, Allocated_Cases r))
       (shp (notebook False 1000 example_states example_pop partial_env example_lulc))
     = [(''A'', Num 800), (''B'', NaN), (''C'', Num 200)]
   \<and> map (\<lambda>l. (fst l, last (snd l)))
       (csv (notebook False 1000 example_states example_pop partial_env example_lulc))
     = [(''A'', Num 800), (''B'', NaN), (''C'', Num 200)]
   \<and> map (\<lambda>r. (State r, Allocated_Cases r))
       (shp (notebook True 1000 example_states example_pop partial_env example_lulc))
     = [(''A'', Num 800), (''B'', NaN), (''C'', Num 200)]
   \<and> map (\<lambda>l. (fst l, last (snd l)))
       (csv (notebook True 1000 example_states example_pop partial_env example_lulc))
     = [(''A'', Num 800), (''B'', NaN), (''C'', Num 200)]"
  by (simp add: notebook_def export_def csv_line_def disaggregate_def partial_env_def
      example_defs stage_defs)

text \<open>
  C7 (as the code does it).  Every boundary state reaches the export, in boundary order,
  once per matching combination of table rows, and the CSV lines carry the allocations of
  the exported frame.  A missing population, temperature or rainfall is given no default
  and is not checked: a boundary state without a population row has a null population, one
  without an environmental row has null temperature and rainfall, every exported row with
  a null population, temperature or rainfall has the allocated cases NaN, and so a
  boundary state without a population row or without an environmental row is exported
  with NaN allocated cases.  Where the chained fill updates the frame (pandas without
  Copy-on-Write), the exported LULC weights are, state by state, the default 1.0 for a
  state with no LULC record and otherwise one weight per record, 1.0 for a record of a
  category that is not in the table; no exported LULC weight is NaN.
\<close>

theorem missing_values_propagate:
  fixes states :: "'g boundary_row list"
  shows
  "map (\<lambda>r. (State r, geometry r)) (shp (notebook cow N states pop env lulc))
     = concat (map (\<lambda>b. replicate (max 1 (length (matches (State b) pop))
                                     * max 1 (length (matches (State b) env))
                                     * max 1 (length (matches (State b) lulc)))
                                    (State b, geometry b)) states)
   \<and> map (\<lambda>l. (fst l, last (snd l))) (csv (notebook cow N states pop env lulc))
       = map (\<lambda>r. (State r, Allocated_Cases r)) (shp (notebook cow N states pop env lulc))
   \<and> (\<forall>r\<in>set (shp (notebook cow N states pop env lulc)).
         (State r \<notin> fst ` set pop \<longrightarrow> Population r = NaN)
       \<and> (State r \<notin> fst ` set env \<longrightarrow> Avg_Temperature r = NaN \<and> Avg_Rainfall r = NaN)
       \<and> (Population r = NaN \<or> Avg_Temperature r = NaN \<or> Avg_Rainfall r = NaN \<longrightarrow>
             Allocated_Cases r = NaN))
   \<and> (\<forall>b\<in>set states. State b \<notin> fst ` set pop \<or> State b \<notin> fst ` set env \<longrightarrow>
         (\<exists>r\<in>set (shp (notebook cow N states pop env lulc)).
             State r = State b \<and> geometry r = geometry b \<and> Allocated_Cases r = NaN))
   \<and> (\<not> cow \<longrightarrow>
         map (\<lambda>r. (State r, LULC_Weight r)) (shp (notebook cow N states pop env lulc))
           = concat (map (\<lambda>b. concat (replicate
                 (max 1 (length (matches (State b) pop)) * max 1 (length (matches (State b) env)))
                 (case matches (State b) lulc of
                    [] \<Rightarrow> [(State b, Num 1)]
                  | ts \<Rightarrow> map (\<lambda>t. (State b, case lulc_weight_mapping t of
                                                   None \<Rightarrow> Num 1 | Some w \<Rightarrow> w)) ts)))
               states)
       \<and> (\<forall>r\<in>set (shp (notebook cow N states pop env lulc)).
             LULC_Weight r \<noteq> NaN \<and> (State r \<notin> fst ` set lulc \<longrightarrow> LULC_Weight r = Num 1)))"
proof -
  let ?out = "shp (notebook cow N states pop env lulc)"
  have 1: "map (\<lambda>r. (State r, geometry r)) ?out
     = concat (map (\<lambda>b. replicate (max 1 (length (matches (State b) pop))
                                     * max 1 (length (matches (State b) env))
                                     * max 1 (length (matches (State b) lulc)))
                                    (State b, geometry b)) states)"
    unfolding shp_notebook by (rule keys_disaggregate)
  have 3: "\<forall>r\<in>set ?out.
         (State r \<notin> fst ` set pop \<longrightarrow> Population r = NaN)
       \<and> (State r \<notin> fst ` set env \<longrightarrow> Avg_Temperature r = NaN \<and> Avg_Rainfall r = NaN)
       \<and> (Population r = NaN \<or> Avg_Temperature r = NaN \<or> Avg_Rainfall r = NaN \<longrightarrow>
             Allocated_Cases r = NaN)"
    unfolding shp_notebook by (rule ballI) (rule disaggregate_row)
  have 4: "\<forall>b\<in>set states. State b \<notin> fst ` set pop \<or> State b \<notin> fst ` set env \<longrightarrow>
         (\<exists>r\<in>set ?out. State r = State b \<and> geometry r = geometry b \<and> Allocated_Cases r = NaN)"
  proof (intro ballI impI)
    fix b assume b: "b \<in> set states"
      and u: "State b \<notin> fst ` set pop \<or> State b \<notin> fst ` set env"
    from boundary_state_exported [OF b, of cow N pop env lulc]
    obtain r where r: "r \<in> set (disaggregate cow N states pop env lulc)"
      "State r = State b" "geometry r = geometry b"
      by blast
    from u r(2) disaggregate_row [OF r(1)] have "Allocated_Cases r = NaN"
      by auto
    with r show "\<exists>r\<in>set ?out. State r = State b \<and> geometry r = geometry b \<and> Allocated_Cases r = NaN"
      unfolding shp_notebook by blast
  qed
  have 5: "\<not> cow \<longrightarrow>
         map (\<lambda>r. (State r, LULC_Weight r)) ?out
           = concat (map (\<lambda>b. concat (replicate
                 (max 1 (length (matches (State b) pop)) * max 1 (length (matches (State b) env)))
                 (case matches (State b) lulc of
                    [] \<Rightarrow> [(State b, Num 1)]
                  | ts \<Rightarrow> map (\<lambda>t. (State b, case lulc_weight_mapping t of
                                                   None \<Rightarrow> Num 1 | Some w \<Rightarrow> w)) ts)))
               states)
       \<and> (\<forall>r\<in>set ?out. LULC_Weight r \<noteq> NaN \<and> (State r \<notin> fst ` set lulc \<longrightarrow> LULC_Weight r = Num 1))"
  proof
    assume "\<not> cow"
    then have c: "cow = False" by simp
    show "map (\<lambda>r. (State r, LULC_Weight r)) ?out
           = concat (map (\<lambda>b. concat (replicate
                 (max 1 (length (matches (State b) pop)) * max 1 (length (matches (State b) env)))
                 (case matches (State b) lulc of
                    [] \<Rightarrow> [(State b, Num 1)]
                  | ts \<Rightarrow> map (\<lambda>t. (State b, case lulc_weight_mapping t of
                                                   None \<Rightarrow> Num 1 | Some w \<Rightarrow> w)) ts)))
               states)
       \<and> (\<forall>r\<in>set ?out. LULC_Weight r \<noteq> NaN \<and> (State r \<notin> fst ` set lulc \<longrightarrow> LULC_Weight r = Num 1))"
      unfolding shp_notebook c
      by (rule conjI, rule weights_disaggregate_filled, rule ballI, rule disaggregate_filled)
  qed
  from 1 csv_notebook [of cow N states pop env lulc] 3 4 5 show ?thesis
    by (intro conjI)
qed

theorem missing_values_propagate_witness:
  "''B'' \<notin> fst ` set partial_env
   \<and> map (\<lambda>r. (State r, geometry r))
       (shp (notebook False 1000 example_states example_pop partial_env unmapped_lulc))
       = [(''A'', 1), (''B'', 2), (''C'', 3)]
   \<and> list_all (\<lambda>r. State r = ''B'' \<longrightarrow> Allocated_Cases r = NaN)
         (shp (notebook False 1000 example_states example_pop partial_env unmapped_lulc))
   \<and> map (\<lambda>r. (State r, LULC_Weight r))
       (shp (notebook False 1000 example_states example_pop partial_env unmapped_lulc))
       = [(''A'', Num 1), (''B'', Num 1), (''C'', Num 1)]"
proof -
  let ?out = "shp (notebook False 1000 example_states example_pop partial_env unmapped_lulc)"
  note t = missing_values_propagate [of False 1000 example_states example_pop partial_env unmapped_lulc]
  note t1 = t [THEN conjunct1]
  note t3 = t [THEN conjunct2, THEN conjunct2, THEN conjunct1]
  note t5 = t [THEN conjunct2, THEN conjunct2, THEN conjunct2, THEN conjunct2]
  have nf: "\<not> False" by simp
  note t5a = t5 [THEN mp, OF nf, THEN conjunct1]
  have b: "''B'' \<notin> fst ` set partial_env"
    by (simp add: partial_env_def)
  have k: "map (\<lambda>r. (State r, geometry r)) ?out = [(''A'', 1), (''B'', 2), (''C'', 3)]"
    unfolding t1 by (simp add: matches_def partial_env_def unmapped_lulc_def example_defs)
  have "\<forall>r\<in>set ?out. State r = ''B'' \<longrightarrow> Allocated_Cases r = NaN"
  proof (intro ballI impI)
    fix r assume r: "r \<in> set ?out" and s: "State r = ''B''"
    from t3 r have "(State r \<notin> fst ` set partial_env \<longrightarrow> Avg_Temperature r = NaN \<and> Avg_Rainfall r = NaN)
       \<and> (Population r = NaN \<or> Avg_Temperature r = NaN \<or> Avg_Rainfall r = NaN \<longrightarrow>
             Allocated_Cases r = NaN)"
      by blast
    with b s show "Allocated_Cases r = NaN"
      by simp
  qed
  then have n: "list_all (\<lambda>r. State r = ''B'' \<longrightarrow> Allocated_Cases r = NaN) ?out"
    by (simp add: list_all_iff)
  have w: "map (\<lambda>r. (State r, LULC_Weight r)) ?out = [(''A'', Num 1), (''B'', Num 1), (''C'', Num 1)]"
    unfolding t5a
    by (simp add: matches_def partial_env_def unmapped_lulc_def lulc_weight_mapping_def example_defs)
  from b k n w show ?thesis
    by (intro conjI)
qed

subsection \<open>Geometry\<close>

text \<open>
  C8.  The (state, geometry) pairs of the exported frame are those of the boundary input,
  in boundary order, each repeated once per matching combination of table rows; so every
  exported geometry is the boundary geometry of its state, and with one row per state in
  the three tables the exported pairs are exactly the boundary's.  Stage by stage: a row
  leaving a merge or the LULC weighting is a row that entered it plus new columns; risk
  scoring and allocation return the rows they were given plus new columns; the export of
  the frame is the frame.
\<close>

theorem geometry_carried_through:
  fixes states :: "'g boundary_row list"
  shows
  "map (\<lambda>r. (State r, geometry r)) (shp (notebook cow N states pop env lulc))
     = concat (map (\<lambda>b. replicate (max 1 (length (matches (State b) pop))
                                     * max 1 (length (matches (State b) env))
                                     * max 1 (length (matches (State b) lulc)))
                                    (State b, geometry b)) states)
   \<and> (\<forall>r\<in>set (shp (notebook cow N states pop env lulc)).
         \<exists>b\<in>set states. State r = State b \<and> geometry r = geometry b)
   \<and> (distinct (map fst pop) \<and> distinct (map fst env) \<and> distinct (map fst lulc) \<longrightarrow>
         map (\<lambda>r. (State r, geometry r)) (shp (notebook cow N states pop env lulc))
           = map (\<lambda>b. (State b, geometry b)) states)
   \<and> (\<forall>r\<in>set (merge_population states pop). boundary_row.truncate r \<in> set states)
   \<and> (\<forall>r\<in>set (merge_environment prows env). pop_row.truncate r \<in> set prows)
   \<and> (\<forall>r\<in>set (lulc_weighting cow erows lulc). env_row.truncate r \<in> set erows)
   \<and> map lulc_row.truncate (environmental_risk lrows) = lrows
   \<and> map risk_row.truncate (allocate N rrows) = rrows
   \<and> shp (export arows) = arows"
proof -
  let ?out = "shp (notebook cow N states pop env lulc)"
  let ?k = "\<lambda>b. max 1 (length (matches (State b) pop)) * max 1 (length (matches (State b) env))
                 * max 1 (length (matches (State b) lulc))"
  have out: "?out = disaggregate cow N states pop env lulc"
    by (simp add: notebook_def export_def)
  have 1: "map (\<lambda>r. (State r, geometry r)) ?out
     = concat (map (\<lambda>b. replicate (?k b) (State b, geometry b)) states)"
    unfolding out by (rule keys_disaggregate)
  have 2: "\<forall>r\<in>set ?out. \<exists>b\<in>set states. State r = State b \<and> geometry r = geometry b"
  proof
    fix r assume "r \<in> set ?out"
    then have "(State r, geometry r) \<in> set (map (\<lambda>r. (State r, geometry r)) ?out)"
      by (simp add: image_iff) blast
    then obtain b where "b \<in> set states" "(State r, geometry r) \<in> set (replicate (?k b) (State b, geometry b))"
      unfolding 1 by auto
    then show "\<exists>b\<in>set states. State r = State b \<and> geometry r = geometry b"
      by (auto split: if_splits)
  qed
  have 3: "distinct (map fst pop) \<and> distinct (map fst env) \<and> distinct (map fst lulc) \<longrightarrow>
         map (\<lambda>r. (State r, geometry r)) ?out = map (\<lambda>b. (State b, geometry b)) states"
  proof
    assume d: "distinct (map fst pop) \<and> distinct (map fst env) \<and> distinct (map fst lulc)"
    have "(\<lambda>b :: 'g boundary_row. replicate (?k b) (State b, geometry b))
        = (\<lambda>b. [(State b, geometry b)])"
    proof (rule ext)
      fix b :: "'g boundary_row"
      have "max 1 (length (matches (State b) pop)) = 1" "max 1 (length (matches (State b) env)) = 1"
        "max 1 (length (matches (State b) lulc)) = 1"
        using d by (simp_all only: matches_distinct_length)
      then show "replicate (?k b) (State b, geometry b) = [(State b, geometry b)]"
        by simp
    qed
    then have "concat (map (\<lambda>b. replicate (?k b) (State b, geometry b)) states)
        = concat (map (\<lambda>b. [(State b, geometry b)]) states)"
      by (simp only:)
    then show "map (\<lambda>r. (State r, geometry r)) ?out = map (\<lambda>b. (State b, geometry b)) states"
      unfolding 1 by simp
  qed
  have 4: "shp (export arows) = arows"
    by (simp add: export_def)
  from 1 2 3 4 truncate_merge_population [of _ states pop]
    truncate_merge_environment [of _ prows env] truncate_lulc_weighting [of _ cow erows lulc]
    truncate_environmental_risk [of lrows] truncate_allocate [of N rrows]
  show ?thesis by blast
qed

theorem geometry_carried_through_witness:
  "distinct (map fst example_pop) \<and> distinct (map fst example_env) \<and> distinct (map fst example_lulc)
   \<and> map geometry (shp (notebook False 1000 example_states example_pop example_env example_lulc))
       = map geometry example_states"
proof -
  have d: "distinct (map fst example_pop) \<and> distinct (map fst example_env) \<and> distinct (map fst example_lulc)"
    by (simp add: example_defs)
  with geometry_carried_through [of False 1000 example_states example_pop example_env example_lulc]
  have "map (\<lambda>r. (State r, geometry r)) (shp (notebook False 1000 example_states example_pop example_env example_lulc))
           = map (\<lambda>b. (State b, geometry b)) example_states"
    by blast
  then have "map snd (map (\<lambda>r. (State r, geometry r)) (shp (notebook False 1000 example_states example_pop example_env example_lulc)))
           = map snd (map (\<lambda>b. (State b, geometry b)) example_states)"
    by simp
  with d show ?thesis by (simp add: comp_def)
qed

subsection \<open>Sums and means of finite columns\<close>

lemma dropna_Num: "dropna (map Num xs) = map Num xs"
  by (induction xs) (simp_all add: dropna_def)

lemma fsum_Num: "fsum (map Num xs) = Num (sum_list xs)"
  by (induction xs) simp_all

lemma series_sum_Num: "series_sum (map Num xs) = Num (sum_list xs)"
  by (simp add: series_sum_def dropna_Num fsum_Num)

lemma series_mean_Num:
  "xs \<noteq> [] \<Longrightarrow> series_mean (map Num xs) = Num (sum_list xs / real (length xs))"
  by (simp add: series_mean_def series_sum_Num dropna_Num)

subsection \<open>The query and the store\<close>

lemma build_query_cases:
  "build_query y s =
     (if (case y of None \<Rightarrow> False | Some v \<Rightarrow> v \<noteq> 0)
      then if (case s of None \<Rightarrow> False | Some n \<Rightarrow> n \<noteq> [])
           then (''SELECT * FROM incidence_data WHERE 1=1 AND year = :year AND state = :state'',
                 [''year'' \<mapsto> PInt (the y), ''state'' \<mapsto> PStr (the s)])
           else (''SELECT * FROM incidence_data WHERE 1=1 AND year = :year'', [''year'' \<mapsto> PInt (the y)])
      else if (case s of None \<Rightarrow> False | Some n \<Rightarrow> n \<noteq> [])
           then (''SELECT * FROM incidence_data WHERE 1=1 AND state = :state'', [''state'' \<mapsto> PStr (the s)])
           else (''SELECT * FROM incidence_data WHERE 1=1'', Map.empty))"
  by (simp add: build_query_def split: option.split)

lemma table_store_build_query:
  "table_store table (fst (build_query y s)) (snd (build_query y s))
     = filter (\<lambda>r. (case y of None \<Rightarrow> True | Some v \<Rightarrow> v = 0 \<or> year r = v)
                  \<and> (case s of None \<Rightarrow> True | Some n \<Rightarrow> n = [] \<or> state r = n)) table"
  by (cases y; cases s) (auto simp: build_query_cases table_store_def intro!: filter_cong)

lemma update_dashboard_Some:
  "update_dashboard db y (Some i) s =
     Inr \<lparr>choropleth = map (\<lambda>row. \<lparr>feature_state = state row,
                                  popup_label = str_title (str_replace (CHR ''_'') (CHR '' '') (indicator_value i)),
                                  popup_value = indicator_column i row\<rparr>)
                            (db (fst (build_query y s)) (snd (build_query y s))),
          trend = \<lparr>fig_data = db (fst (build_query y s)) (snd (build_query y s)), fig_x = ''date'',
                   fig_y = Some (indicator_value i), fig_color = ''state''\<rparr>,
          bar_chart = \<lparr>fig_data = db (fst (build_query y s)) (snd (build_query y s)), fig_x = ''state'',
                   fig_y = Some (indicator_value i), fig_color = ''state''\<rparr>,
          correlation = \<lparr>fig_data = db (fst (build_query y s)) (snd (build_query y s)),
                   fig_x = ''rainfall(mm)'', fig_y = Some (indicator_value i), fig_color = ''state''\<rparr>,
          kpi_card_1 = series_sum (map incidence_rate_adjusted (db (fst (build_query y s)) (snd (build_query y s)))),
          kpi_card_2 = series_sum (map mortality_rate_adjusted (db (fst (build_query y s)) (snd (build_query y s)))),
          kpi_card_3 = series_mean (map effective_treatment_adjusted (db (fst (build_query y s)) (snd (build_query y s))))\<rparr>"
  by (simp add: update_dashboard_def geojson_features_def Let_def case_prod_beta)

lemma update_dashboard_kpis:
  assumes "update_dashboard db y ind s = Inr out"
  shows "kpi_card_1 out = series_sum (map incidence_rate_adjusted (db (fst (build_query y s)) (snd (build_query y s))))"
    and "kpi_card_2 out = series_sum (map mortality_rate_adjusted (db (fst (build_query y s)) (snd (build_query y s))))"
    and "kpi_card_3 out = series_mean (map effective_treatment_adjusted (db (fst (build_query y s)) (snd (build_query y s))))"
    and "fig_data (trend out) = db (fst (build_query y s)) (snd (build_query y s))"
  using assms
  by (auto simp: update_dashboard_def Let_def case_prod_beta split: sum.splits)

subsection \<open>The KPI cards\<close>

text \<open>
  C9.  For every year and state selection and every selected indicator the callback
  returns, and whenever it returns, its three KPI values are computed over the rows
  fetched for the selection: card 1 is the sum of the incidence-rate column, card 2 the
  sum of the mortality-rate column, card 3 the mean of the effective-treatment column
  (pandas' sum and mean; on columns of numbers, the sum of the numbers and, when there is
  a row, their sum divided by their count).
\<close>

theorem kpis_over_filtered_rows:
  "(\<exists>out. update_dashboard db y (Some i) s = Inr out)
   \<and> (\<forall>out. update_dashboard db y ind s = Inr out \<longrightarrow>
         kpi_card_1 out = series_sum (map incidence_rate_adjusted (db (fst (build_query y s)) (snd (build_query y s))))
       \<and> kpi_card_2 out = series_sum (map mortality_rate_adjusted (db (fst (build_query y s)) (snd (build_query y s))))
       \<and> kpi_card_3 out = series_mean (map effective_treatment_adjusted (db (fst (build_query y s)) (snd (build_query y s))))
       \<and> (\<forall>xs. map incidence_rate_adjusted (db (fst (build_query y s)) (snd (build_query y s))) = map Num xs \<longrightarrow>
              kpi_card_1 out = Num (sum_list xs))
       \<and> (\<forall>xs. map mortality_rate_adjusted (db (fst (build_query y s)) (snd (build_query y s))) = map Num xs \<longrightarrow>
              kpi_card_2 out = Num (sum_list xs))
       \<and> (\<forall>xs. map effective_treatment_adjusted (db (fst (build_query y s)) (snd (build_query y s))) = map Num xs
               \<and> xs \<noteq> [] \<longrightarrow>
              kpi_card_3 out = Num (sum_list xs / real (length xs))))"
proof (intro conjI allI impI)
  show "\<exists>out. update_dashboard db y (Some i) s = Inr out"
    by (simp add: update_dashboard_Some)
next
  fix out assume r: "update_dashboard db y ind s = Inr out"
  note k = update_dashboard_kpis [OF r]
  show "kpi_card_1 out = series_sum (map incidence_rate_adjusted (db (fst (build_query y s)) (snd (build_query y s))))"
    by (rule k(1))
  show "kpi_card_2 out = series_sum (map mortality_rate_adjusted (db (fst (build_query y s)) (snd (build_query y s))))"
    by (rule k(2))
  show "kpi_card_3 out = series_mean (map effective_treatment_adjusted (db (fst (build_query y s)) (snd (build_query y s))))"
    by (rule k(3))
  show "kpi_card_1 out = Num (sum_list xs)"
    if "map incidence_rate_adjusted (db (fst (build_query y s)) (snd (build_query y s))) = map Num xs" for xs
    using that k(1) by (simp add: series_sum_Num)
  show "kpi_card_2 out = Num (sum_list xs)"
    if "map mortality_rate_adjusted (db (fst (build_query y s)) (snd (build_query y s))) = map Num xs" for xs
    using that k(2) by (simp add: series_sum_Num)
  show "kpi_card_3 out = Num (sum_list xs / real (length xs))"
    if "map effective_treatment_adjusted (db (fst (build_query y s)) (snd (build_query y s))) = map Num xs
               \<and> xs \<noteq> []" for xs
    using that k(3) by (simp add: series_mean_Num)
qed

theorem kpis_over_filtered_rows_witness:
  "map_sum id (\<lambda>out. (kpi_card_1 out, kpi_card_2 out, kpi_card_3 out))
     (update_dashboard (table_store example_table) (Some 2019) (Some IncidenceRate) None)
   = Inr (Num 80, Num 5, Num 30)"
proof -
  let ?db = "table_store example_table"
  have rows: "?db (fst (build_query (Some 2019) None)) (snd (build_query (Some 2019) None))
      = take 2 example_table"
    by (simp add: table_store_build_query example_table_def)
  from kpis_over_filtered_rows [of ?db "Some 2019" IncidenceRate None "Some IncidenceRate"]
  obtain out where out: "update_dashboard ?db (Some 2019) (Some IncidenceRate) None = Inr out"
    and "kpi_card_1 out = series_sum (map incidence_rate_adjusted (take 2 example_table))"
    and "kpi_card_2 out = series_sum (map mortality_rate_adjusted (take 2 example_table))"
    and "kpi_card_3 out = series_mean (map effective_treatment_adjusted (take 2 example_table))"
    unfolding rows by blast
  then show ?thesis
    by (simp add: example_table_def series_sum_def series_mean_def dropna_def)
qed

subsection \<open>The indicator and the KPI cards\<close>

text \<open>
  C10.  Two invocations of the callback with the same year and the same state and two
  selected indicators both return; the statement and the parameters sent to the store
  are those of \<open>build_query\<close>, which does not read the indicator, so the rows fetched,
  the rows charted, the states on the map and the three KPI values are the same in both.
  The indicator decides only the charted column and the popup label and value.  The
  same holds of any two invocations that return, the indicator cleared or not.
\<close>

theorem indicator_does_not_filter:
  "(\<exists>o1 o2. update_dashboard db y (Some i1) s = Inr o1
        \<and> update_dashboard db y (Some i2) s = Inr o2
        \<and> kpi_card_1 o1 = kpi_card_1 o2 \<and> kpi_card_2 o1 = kpi_card_2 o2 \<and> kpi_card_3 o1 = kpi_card_3 o2
        \<and> fig_data (trend o1) = db (fst (build_query y s)) (snd (build_query y s))
        \<and> fig_data (trend o2) = db (fst (build_query y s)) (snd (build_query y s))
        \<and> fig_data (bar_chart o1) = fig_data (bar_chart o2)
        \<and> fig_data (correlation o1) = fig_data (correlation o2)
        \<and> map feature_state (choropleth o1) = map feature_state (choropleth o2)
        \<and> fig_y (trend o1) = Some (indicator_value i1) \<and> fig_y (trend o2) = Some (indicator_value i2)
        \<and> map popup_value (choropleth o1) = map (indicator_column i1) (fig_data (trend o1))
        \<and> map popup_value (choropleth o2) = map (indicator_column i2) (fig_data (trend o2)))
   \<and> (\<forall>ind1 ind2 p1 p2.
         update_dashboard db y ind1 s = Inr p1 \<and> update_dashboard db y ind2 s = Inr p2 \<longrightarrow>
           kpi_card_1 p1 = kpi_card_1 p2 \<and> kpi_card_2 p1 = kpi_card_2 p2 \<and> kpi_card_3 p1 = kpi_card_3 p2
         \<and> fig_data (trend p1) = fig_data (trend p2))"
proof (intro conjI allI impI)
  show "\<exists>o1 o2. update_dashboard db y (Some i1) s = Inr o1
        \<and> update_dashboard db y (Some i2) s = Inr o2
        \<and> kpi_card_1 o1 = kpi_card_1 o2 \<and> kpi_card_2 o1 = kpi_card_2 o2 \<and> kpi_card_3 o1 = kpi_card_3 o2
        \<and> fig_data (trend o1) = db (fst (build_query y s)) (snd (build_query y s))
        \<and> fig_data (trend o2) = db (fst (build_query y s)) (snd (build_query y s))
        \<and> fig_data (bar_chart o1) = fig_data (bar_chart o2)
        \<and> fig_data (correlation o1) = fig_data (correlation o2)
        \<and> map feature_state (choropleth o1) = map feature_state (choropleth o2)
        \<and> fig_y (trend o1) = Some (indicator_value i1) \<and> fig_y (trend o2) = Some (indicator_value i2)
        \<and> map popup_value (choropleth o1) = map (indicator_column i1) (fig_data (trend o1))
        \<and> map popup_value (choropleth o2) = map (indicator_column i2) (fig_data (trend o2))"
    by (simp add: update_dashboard_Some comp_def)
next
  fix ind1 ind2 p1 p2
  assume "update_dashboard db y ind1 s = Inr p1 \<and> update_dashboard db y ind2 s = Inr p2"
  then have a: "update_dashboard db y ind1 s = Inr p1" and b: "update_dashboard db y ind2 s = Inr p2"
    by simp_all
  show "kpi_card_1 p1 = kpi_card_1 p2" "kpi_card_2 p1 = kpi_card_2 p2" "kpi_card_3 p1 = kpi_card_3 p2"
    "fig_data (trend p1) = fig_data (trend p2)"
    by (simp_all add: update_dashboard_kpis [OF a] update_dashboard_kpis [OF b])
qed

theorem indicator_does_not_filter_witness:
  "map_sum id (\<lambda>out. (kpi_card_1 out, kpi_card_2 out, kpi_card_3 out))
     (update_dashboard (table_store example_table) None (Some MortalityRate) (Some ''Lagos''))
   = map_sum id (\<lambda>out. (kpi_card_1 out, kpi_card_2 out, kpi_card_3 out))
     (update_dashboard (table_store example_table) None (Some EffectiveTreatment) (Some ''Lagos''))"
proof -
  from indicator_does_not_filter
    [of "table_store example_table" None MortalityRate "Some ''Lagos''" EffectiveTreatment]
  obtain o1 o2 where
    "update_dashboard (table_store example_table) None (Some MortalityRate) (Some ''Lagos'') = Inr o1"
    "update_dashboard (table_store example_table) None (Some EffectiveTreatment) (Some ''Lagos'') = Inr o2"
    "kpi_card_1 o1 = kpi_card_1 o2" "kpi_card_2 o1 = kpi_card_2 o2" "kpi_card_3 o1 = kpi_card_3 o2"
    by blast
  then show ?thesis by simp
qed

end
